theory Spec2Isabelle
  imports Main "HOL-Library.Char_ord" "HOL-Library.List_Lexorder"
begin

section \<open>JavaScript values used by the code\<close>

text \<open>
  \<open>array[i]\<close> never raises in JavaScript: outside \<open>0 .. length - 1\<close> it is
  \<open>undefined\<close>, modelled as \<open>None\<close>.
\<close>

definition array_at :: "'a list \<Rightarrow> int \<Rightarrow> 'a option" where
  "array_at array i = (if 0 \<le> i \<and> i < int (length array) then Some (array ! nat i) else None)"

text \<open>
  \<open>x >> n\<close> first converts \<open>x\<close> to a signed 32-bit integer (\<open>ToInt32\<close>: wrap modulo
  \<open>2^32\<close> into \<open>-2^31 .. 2^31 - 1\<close>), then shifts arithmetically by \<open>n mod 32\<close> bits.
\<close>

definition ToInt32 :: "int \<Rightarrow> int" where
  "ToInt32 x = (x + 2 ^ 31) mod 2 ^ 32 - 2 ^ 31"

definition js_sar :: "int \<Rightarrow> nat \<Rightarrow> int" where
  "js_sar x n = ToInt32 x div 2 ^ (n mod 32)"

section \<open>js/gpxmap.js: \<open>search\<close>\<close>

text \<open>
  \<^verbatim>\<open>
  function search(array, pred) {
      let le = -1, ri = array.length;
      while (1 + le !== ri) {
          const mi = le + ((ri - le) >> 1);
          if (pred(array[mi])) { ri = mi; } else { le = mi; }
      }
      return ri;
  }
  \<close>
  The loop is the recursion \<open>search_loop\<close>; a run that never leaves the loop is the
  value \<open>None\<close>.
\<close>

partial_function (option) search_loop ::
  "'a list \<Rightarrow> ('a option \<Rightarrow> bool) \<Rightarrow> int \<Rightarrow> int \<Rightarrow> int option" where
  "search_loop array pred le ri =
     (if 1 + le \<noteq> ri then
        (let mi = le + js_sar (ri - le) 1 in
         if pred (array_at array mi) then search_loop array pred le mi
         else search_loop array pred mi ri)
      else Some ri)"

declare search_loop.simps [code]

definition search :: "'a list \<Rightarrow> ('a option \<Rightarrow> bool) \<Rightarrow> int option" where
  "search array pred = search_loop array pred (- 1) (int (length array))"

section \<open>util/togj.js: \<open>forEachUniqueRange\<close>\<close>

text \<open>
  A callback may throw: \<open>assert\<close> raises an \<open>AssertionError\<close>, reading a property of
  \<open>undefined\<close> or calling a method a value does not have raises a \<open>TypeError\<close>. A function
  that can throw returns \<open>error + 'a\<close>, with \<open>Inl\<close> the exception. \<open>LeafletError\<close> is an
  exception of the Leaflet library; \<open>Unmodelled\<close> marks the inputs on which JavaScript
  goes on with a value that the types below cannot hold.
\<close>

datatype error = AssertionError | TypeError | LeafletError | Unmodelled

text \<open>\<open>Array.prototype.map\<close> with a callback that may throw: the first exception ends the map.\<close>

fun mapE :: "('a \<Rightarrow> error + 'b) \<Rightarrow> 'a list \<Rightarrow> error + 'b list" where
  "mapE f [] = Inr []"
| "mapE f (x # xs) =
     (case f x of
        Inl e \<Rightarrow> Inl e
      | Inr y \<Rightarrow> (case mapE f xs of Inl e \<Rightarrow> Inl e | Inr ys \<Rightarrow> Inr (y # ys)))"

text \<open>\<open>array.slice(lo, hi)\<close> for indices \<open>0 \<le> lo\<close>, \<open>0 \<le> hi\<close>: clamped to the array, empty when \<open>hi \<le> lo\<close>.\<close>

definition js_slice :: "nat \<Rightarrow> nat \<Rightarrow> 'a list \<Rightarrow> 'a list" where
  "js_slice lo hi array = take (hi - lo) (drop lo array)"

text \<open>
  \<^verbatim>\<open>
  function forEachUniqueRange(array, equal, func) {
      const res = [];
      for (let lo = 0, hi; lo !== array.length; lo = hi) {
          for (hi = 1 + lo; hi !== array.length && equal(array[lo], array[hi]); ++hi)
              ;
          res.push(func(lo, hi, array));
      }
      return res;
  }
  \<close>
  \<open>scanRange\<close> is the inner loop (it returns the final \<open>hi\<close>), \<open>rangeLoop\<close> the outer one.
  Both exit tests are \<open>!==\<close>, so neither loop is bounded by its syntax: \<open>None\<close> is a run
  that never returns.
\<close>

partial_function (option) scanRange ::
  "'a list \<Rightarrow> ('a option \<Rightarrow> 'a option \<Rightarrow> error + bool) \<Rightarrow> nat \<Rightarrow> nat \<Rightarrow> (error + nat) option" where
  "scanRange array equal lo hi =
     (if hi \<noteq> length array then
        (case equal (array_at array (int lo)) (array_at array (int hi)) of
           Inl e \<Rightarrow> Some (Inl e)
         | Inr b \<Rightarrow> if b then scanRange array equal lo (hi + 1) else Some (Inr hi))
      else Some (Inr hi))"

declare scanRange.simps [code]

partial_function (option) rangeLoop ::
  "'a list \<Rightarrow> ('a option \<Rightarrow> 'a option \<Rightarrow> error + bool) \<Rightarrow> (nat \<Rightarrow> nat \<Rightarrow> 'a list \<Rightarrow> error + 'b)
     \<Rightarrow> nat \<Rightarrow> 'b list \<Rightarrow> (error + 'b list) option" where
  "rangeLoop array equal func lo res =
     (if lo \<noteq> length array then
        (case scanRange array equal lo (1 + lo) of
           None \<Rightarrow> None
         | Some (Inl e) \<Rightarrow> Some (Inl e)
         | Some (Inr hi) \<Rightarrow>
             (case func lo hi array of
                Inl e \<Rightarrow> Some (Inl e)
              | Inr r \<Rightarrow> rangeLoop array equal func hi (res @ [r])))
      else Some (Inr res))"

declare rangeLoop.simps [code]

definition forEachUniqueRange ::
  "'a list \<Rightarrow> ('a option \<Rightarrow> 'a option \<Rightarrow> error + bool) \<Rightarrow> (nat \<Rightarrow> nat \<Rightarrow> 'a list \<Rightarrow> error + 'b)
     \<Rightarrow> (error + 'b list) option" where
  "forEachUniqueRange array equal func = rangeLoop array equal func 0 []"

text \<open>The runs \<open>[lo, hi)\<close> of a list of index pairs tile \<open>[a, b)\<close> in order, none of them empty.\<close>

fun tiles :: "nat \<Rightarrow> (nat \<times> nat) list \<Rightarrow> nat \<Rightarrow> bool" where
  "tiles a [] b = (a = b)"
| "tiles a ((lo, hi) # runs) b = (lo = a \<and> lo < hi \<and> tiles hi runs b)"

text \<open>
  A run \<open>[lo, hi)\<close> as the inner loop leaves it: \<open>eq\<close> holds between the first element and
  every later one of the run, and the run stops at the end of the array or at the first
  element that \<open>eq\<close> does not relate to the first.
\<close>

definition run_of :: "('a \<Rightarrow> 'a \<Rightarrow> bool) \<Rightarrow> 'a list \<Rightarrow> nat \<times> nat \<Rightarrow> bool" where
  "run_of eq array r =
     (case r of (lo, hi) \<Rightarrow>
        lo < hi \<and> hi \<le> length array
        \<and> (\<forall>i\<in>{Suc lo..<hi}. eq (array ! lo) (array ! i))
        \<and> (hi = length array \<or> \<not> eq (array ! lo) (array ! hi)))"

text \<open>The results of calling \<open>func\<close> on each run of a list of runs, in order.\<close>

definition collect ::
  "(nat \<Rightarrow> nat \<Rightarrow> 'a list \<Rightarrow> error + 'b) \<Rightarrow> 'a list \<Rightarrow> (nat \<times> nat) list \<Rightarrow> error + 'b list" where
  "collect func array runs = mapE (\<lambda>(lo, hi). func lo hi array) runs"

section \<open>GeoJSON features\<close>

text \<open>
  The features are the objects \<open>gpxToJson\<close> builds from the output of togeojson:
  \<open>{ type, properties, geometry }\<close>, to which \<open>addBbox\<close> adds \<open>bbox\<close>. A GPX file gives
  points, lines and multi-lines. A position is an array of numbers (\<open>[lng, lat]\<close> or
  \<open>[lng, lat, alt]\<close>); the number type \<open>'n\<close> is left open, the code only passes
  coordinates on to Leaflet.
\<close>

type_synonym 'n position = "'n list"

datatype 'n geometry =
    Point "'n position"
  | LineString "'n position list"
  | MultiLineString "'n position list list"

fun gtype :: "'n geometry \<Rightarrow> string" where
  "gtype (Point _) = ''Point''"
| "gtype (LineString _) = ''LineString''"
| "gtype (MultiLineString _) = ''MultiLineString''"

text \<open>\<open>geometry.coordinates.length\<close>\<close>

fun coordinates_length :: "'n geometry \<Rightarrow> nat" where
  "coordinates_length (Point p) = length p"
| "coordinates_length (LineString cs) = length cs"
| "coordinates_length (MultiLineString parts) = length parts"

text \<open>
  \<open>coordTimes\<close> is an array of timestamp strings on a line and an array of such arrays on
  a multi-line. Where JavaScript would go on with a value of another shape (a string, a
  third level of nesting), the model stops with \<open>Unmodelled\<close>. A string is the list of its
  characters; the timestamps, dates and type names that the code cuts and compares are
  ASCII.
\<close>

datatype coord_times = Times "string list" | MultiTimes "string list list"

fun times_length :: "coord_times \<Rightarrow> nat" where
  "times_length (Times ts) = length ts"
| "times_length (MultiTimes tss) = length tss"

text \<open>
  The property bag: the keys the code reads or writes, each absent (\<open>None\<close>) or present,
  and the remaining keys of the GPX file (name, description, ...) in \<open>rest\<close>.
\<close>

record 'n properties =
  time :: "string option"
  coordTimes :: "coord_times option"
  gpxFileName :: "string option"
  date :: "string option"
  distance_prop :: "'n option"
  rest :: "(string \<times> string) list"

definition empty_properties :: "'n properties" where
  "empty_properties =
     \<lparr>time = None, coordTimes = None, gpxFileName = None, date = None,
      distance_prop = None, rest = []\<rparr>"

record 'n feature =
  ftype :: string
  bbox :: "'n option list option"
  properties :: "'n properties option"
  geometry :: "'n geometry"

text \<open>\<open>a || b\<close> on strings that may be absent: \<open>undefined\<close> and the empty string are falsy.\<close>

definition js_or :: "string option \<Rightarrow> string option \<Rightarrow> string option" where
  "js_or a b = (case a of None \<Rightarrow> b | Some s \<Rightarrow> if s = [] then b else Some s)"

text \<open>\<open>xs[0]\<close>\<close>

definition first :: "'a list \<Rightarrow> 'a option" where
  "first xs = (case xs of [] \<Rightarrow> None | x # _ \<Rightarrow> Some x)"

section \<open>util/togj.js: \<open>multiSplit\<close>\<close>

text \<open>
  \<^verbatim>\<open>
  function multiSplit(feature) {
      assert.equal(feature.type, 'Feature');
      if ('MultiLineString' !== feature.geometry.type) {
          return [ feature ];
      }
      return feature.geometry.coordinates.map(function (coordinates, i) {
          const properties = Object.assign({}, feature.properties);
          if (properties.coordTimes) {
              assert(i < properties.coordTimes.length);
              assert.equal(properties.coordTimes[i].length, coordinates.length);
              assert.equal(properties.time, properties.coordTimes[0][0]);
              properties.coordTimes = properties.coordTimes[i];
              properties.time = properties.coordTimes[0];
          }
          return { 'type': 'Feature', properties,
                   'geometry': { 'type': 'LineString', coordinates } };
      });
  }
  \<close>
  \<open>multiSplit_part\<close> is the callback of the map. An array is truthy, also when empty.
  \<open>assert.equal\<close> compares with \<open>==\<close>: two strings by their characters, \<open>undefined\<close> equal
  to itself only. When \<open>coordTimes\<close> is a flat array of strings, \<open>coordTimes[i]\<close> is a
  string, its \<open>length\<close> is its number of characters and \<open>coordTimes[0][0]\<close> is the first
  character of the first string; behind the assertions the new \<open>coordTimes\<close> would be a
  string.
\<close>

definition multiSplit_part :: "'n feature \<Rightarrow> 'n position list \<Rightarrow> nat \<Rightarrow> error + 'n feature" where
  "multiSplit_part feature coordinates i =
     (let properties = (case properties feature of None \<Rightarrow> empty_properties | Some p \<Rightarrow> p) in
      case coordTimes properties of
        None \<Rightarrow>
          Inr \<lparr>ftype = ''Feature'', bbox = None, properties = Some properties,
               geometry = LineString coordinates\<rparr>
      | Some (Times ts) \<Rightarrow>
          if \<not> i < length ts then Inl AssertionError
          else if length (ts ! i) \<noteq> length coordinates then Inl AssertionError
          else if time properties \<noteq> (case ts ! 0 of [] \<Rightarrow> None | c # _ \<Rightarrow> Some [c])
            then Inl AssertionError
          else Inl Unmodelled
      | Some (MultiTimes tss) \<Rightarrow>
          if \<not> i < length tss then Inl AssertionError
          else if length (tss ! i) \<noteq> length coordinates then Inl AssertionError
          else if time properties \<noteq> first (tss ! 0) then Inl AssertionError
          else
            Inr \<lparr>ftype = ''Feature'', bbox = None,
                 properties = Some (properties\<lparr>coordTimes := Some (Times (tss ! i)),
                                               time := first (tss ! i)\<rparr>),
                 geometry = LineString coordinates\<rparr>)"

definition multiSplit :: "'n feature \<Rightarrow> error + 'n feature list" where
  "multiSplit feature =
     (if ftype feature \<noteq> ''Feature'' then Inl AssertionError
      else case geometry feature of
        MultiLineString parts \<Rightarrow>
          mapE (\<lambda>(coordinates, i). multiSplit_part feature coordinates i)
            (zip parts [0..<length parts])
      | _ \<Rightarrow> Inr [feature])"

section \<open>util/togj.js: \<open>dateSplit\<close>\<close>

text \<open>
  \<^verbatim>\<open>
  function dateSplit(feature) {
      assert.equal(feature.type, 'Feature');
      if ('LineString' !== feature.geometry.type ||
          !feature.properties || !feature.properties.coordTimes ||
          feature.properties.coordTimes.length !== feature.geometry.coordinates.length)
      {
          const properties = Object.assign({}, feature.properties, {
              'date': (feature.properties.time || feature.properties.gpxFileName).substr(0, 10),
          });
          return [ { 'type': 'Feature', properties, 'geometry': feature.geometry } ];
      }
      assert.equal(
          feature.properties.coordTimes.length,
          feature.geometry.coordinates.length,
          `${feature.properties.gpxFileName}: ${feature.properties.time}`
      );
      return forEachUniqueRange(
          feature.properties.coordTimes,
          (lhs, rhs) => lhs.substr(0, 10) === rhs.substr(0, 10),
          function (lo, hi) {
              const properties = Object.assign({}, feature.properties);
              properties.coordTimes = properties.coordTimes.slice(lo, hi);
              properties.time = properties.coordTimes[0];
              properties.date = properties.time.substr(0, 10);
              const coordinates = feature.geometry.coordinates.slice(lo, hi);
              return { 'type': 'Feature', properties,
                       'geometry': { 'type': 'LineString', coordinates } };
          }
      );
  }
  \<close>
  \<open>s.substr(0, 10)\<close> is \<open>take 10 s\<close>; on \<open>undefined\<close> and on an array (which has no
  \<open>substr\<close>) the call is a \<open>TypeError\<close>.
\<close>

definition dateSplit_single :: "'n feature \<Rightarrow> error + 'n feature list" where
  "dateSplit_single feature =
     (case properties feature of
        None \<Rightarrow> Inl TypeError
      | Some p \<Rightarrow>
          (case js_or (time p) (gpxFileName p) of
             None \<Rightarrow> Inl TypeError
           | Some s \<Rightarrow>
               Inr [\<lparr>ftype = ''Feature'', bbox = None,
                     properties = Some (p\<lparr>date := Some (take 10 s)\<rparr>),
                     geometry = geometry feature\<rparr>]))"

definition sameDay :: "string option \<Rightarrow> string option \<Rightarrow> error + bool" where
  "sameDay lhs rhs =
     (case lhs of
        None \<Rightarrow> Inl TypeError
      | Some l \<Rightarrow> (case rhs of None \<Rightarrow> Inl TypeError | Some r \<Rightarrow> Inr (take 10 l = take 10 r)))"

definition dateSplit_run ::
  "'n properties \<Rightarrow> string list \<Rightarrow> 'n position list \<Rightarrow> nat \<Rightarrow> nat \<Rightarrow> error + 'n feature" where
  "dateSplit_run p ts coordinates lo hi =
     (let slice = js_slice lo hi ts in
      case first slice of
        None \<Rightarrow> Inl TypeError
      | Some t \<Rightarrow>
          Inr \<lparr>ftype = ''Feature'', bbox = None,
               properties = Some (p\<lparr>coordTimes := Some (Times slice), time := Some t,
                                    date := Some (take 10 t)\<rparr>),
               geometry = LineString (js_slice lo hi coordinates)\<rparr>)"

definition dateSplit :: "'n feature \<Rightarrow> (error + 'n feature list) option" where
  "dateSplit feature =
     (if ftype feature \<noteq> ''Feature'' then Some (Inl AssertionError)
      else case geometry feature of
        LineString coordinates \<Rightarrow>
          (case properties feature of
             None \<Rightarrow> Some (dateSplit_single feature)
           | Some p \<Rightarrow>
               (case coordTimes p of
                  None \<Rightarrow> Some (dateSplit_single feature)
                | Some ct \<Rightarrow>
                    if times_length ct \<noteq> length coordinates then Some (dateSplit_single feature)
                    else if times_length ct \<noteq> length coordinates then Some (Inl AssertionError)
                    else
                      (case ct of
                         Times ts \<Rightarrow>
                           forEachUniqueRange ts sameDay
                             (\<lambda>lo hi array. dateSplit_run p ts coordinates lo hi)
                       | MultiTimes tss \<Rightarrow>
                           forEachUniqueRange tss (\<lambda>lhs rhs. Inl TypeError)
                             (\<lambda>lo hi array. Inl TypeError))))
      | _ \<Rightarrow> Some (dateSplit_single feature))"

section \<open>util/togj.js: \<open>timeCompare\<close> and the sort\<close>

text \<open>
  \<^verbatim>\<open>
  function timeCompare(lhs, rhs) {
      assert.equal(lhs.type, 'Feature');
      assert.equal(rhs.type, 'Feature');
      const time0 = lhs.properties.time || lhs.properties.date;
      const time1 = rhs.properties.time || rhs.properties.date;
      return time0 < time1 ? -1 : time1 < time0 ? 1 : 0;
  }
  \<close>
  \<open><\<close> on two strings is the lexicographic order of their code units; with \<open>undefined\<close> on
  either side it is false.
\<close>

definition js_less :: "string option \<Rightarrow> string option \<Rightarrow> bool" where
  "js_less a b = (case a of None \<Rightarrow> False | Some x \<Rightarrow> (case b of None \<Rightarrow> False | Some y \<Rightarrow> x < y))"

definition timeCompare :: "'n feature \<Rightarrow> 'n feature \<Rightarrow> error + int" where
  "timeCompare lhs rhs =
     (if ftype lhs \<noteq> ''Feature'' then Inl AssertionError
      else if ftype rhs \<noteq> ''Feature'' then Inl AssertionError
      else case properties lhs of
        None \<Rightarrow> Inl TypeError
      | Some pl \<Rightarrow>
          (case properties rhs of
             None \<Rightarrow> Inl TypeError
           | Some pr \<Rightarrow>
               (let time0 = js_or (time pl) (date pl); time1 = js_or (time pr) (date pr) in
                Inr (if js_less time0 time1 then - 1 else if js_less time1 time0 then 1 else 0))))"

text \<open>
  \<open>Array.prototype.sort(compare)\<close> is stable; it is modelled as the insertion sort that
  keeps equal elements in their order, stopping at the first exception of \<open>compare\<close>.
\<close>

fun insertE :: "('a \<Rightarrow> 'a \<Rightarrow> error + int) \<Rightarrow> 'a \<Rightarrow> 'a list \<Rightarrow> error + 'a list" where
  "insertE compare x [] = Inr [x]"
| "insertE compare x (y # ys) =
     (case compare x y of
        Inl e \<Rightarrow> Inl e
      | Inr c \<Rightarrow>
          if c \<le> 0 then Inr (x # y # ys)
          else (case insertE compare x ys of Inl e \<Rightarrow> Inl e | Inr zs \<Rightarrow> Inr (y # zs)))"

fun sortE :: "('a \<Rightarrow> 'a \<Rightarrow> error + int) \<Rightarrow> 'a list \<Rightarrow> error + 'a list" where
  "sortE compare [] = Inr []"
| "sortE compare (x # xs) =
     (case sortE compare xs of Inl e \<Rightarrow> Inl e | Inr ys \<Rightarrow> insertE compare x ys)"

section \<open>util/togj.js: \<open>mergeLines\<close>\<close>

text \<open>
  \<^verbatim>\<open>
  function mergeLines(lo, hi, features) {
      if (hi - lo <= 1) {
          return features[lo];
      }
      const slice = features.slice(lo, hi);
      assert(slice.every(feature => 'LineString' === feature.geometry.type));
      const properties = { 'date': slice[0].properties.date };
      if (slice[0].properties.coordTimes) {
          properties.coordTimes = slice.map(function (walk) {
              assert.equal(
                  walk.properties.coordTimes.length,
                  walk.geometry.coordinates.length
              );
              return walk.properties.coordTimes;
          });
          properties.time = properties.coordTimes[0][0];
      }
      const coordinates = slice.map(walk => walk.geometry.coordinates);
      return { 'type': 'Feature', properties,
               'geometry': { 'type': 'MultiLineString', coordinates } };
  }
  \<close>
  The result is \<open>features[lo]\<close> in the first branch, which is \<open>undefined\<close> (\<open>None\<close>) when \<open>lo\<close>
  is not an index of \<open>features\<close>. \<open>line_coordinates\<close> is the assertion that a feature is a
  line, returning its coordinates; \<open>walk_times\<close> is the callback of the first map.
\<close>

definition line_coordinates :: "'n feature \<Rightarrow> error + 'n position list" where
  "line_coordinates feature =
     (case geometry feature of LineString cs \<Rightarrow> Inr cs | _ \<Rightarrow> Inl AssertionError)"

definition walk_times :: "'n feature \<Rightarrow> error + coord_times" where
  "walk_times walk =
     (case properties walk of
        None \<Rightarrow> Inl TypeError
      | Some p \<Rightarrow>
          (case coordTimes p of
             None \<Rightarrow> Inl TypeError
           | Some ct \<Rightarrow>
               if times_length ct \<noteq> coordinates_length (geometry walk) then Inl AssertionError
               else Inr ct))"

definition flat_times :: "coord_times \<Rightarrow> error + string list" where
  "flat_times ct = (case ct of Times ts \<Rightarrow> Inr ts | MultiTimes tss \<Rightarrow> Inl Unmodelled)"

definition mergeLines :: "nat \<Rightarrow> nat \<Rightarrow> 'n feature list \<Rightarrow> error + 'n feature option" where
  "mergeLines lo hi features =
     (if int hi - int lo \<le> 1 then Inr (array_at features (int lo))
      else
        (let slice = js_slice lo hi features in
         case mapE line_coordinates slice of
           Inl e \<Rightarrow> Inl e
         | Inr coordinates \<Rightarrow>
             (case first slice of
                None \<Rightarrow> Inl TypeError
              | Some walk0 \<Rightarrow>
                  (case properties walk0 of
                     None \<Rightarrow> Inl TypeError
                   | Some p0 \<Rightarrow>
                       (case coordTimes p0 of
                          None \<Rightarrow>
                            Inr (Some \<lparr>ftype = ''Feature'', bbox = None,
                                       properties = Some (empty_properties\<lparr>date := date p0\<rparr>),
                                       geometry = MultiLineString coordinates\<rparr>)
                        | Some ct0 \<Rightarrow>
                            (case mapE walk_times slice of
                               Inl e \<Rightarrow> Inl e
                             | Inr cts \<Rightarrow>
                                 (case mapE flat_times cts of
                                    Inl e \<Rightarrow> Inl e
                                  | Inr tss \<Rightarrow>
                                      Inr (Some \<lparr>ftype = ''Feature'', bbox = None,
                                                 properties = Some (empty_properties
                                                   \<lparr>date := date p0,
                                                    coordTimes := Some (MultiTimes tss),
                                                    time := (case first tss of
                                                               None \<Rightarrow> None
                                                             | Some ts0 \<Rightarrow> first ts0)\<rparr>),
                                                 geometry = MultiLineString coordinates\<rparr>))))))))"

section \<open>util/togj.js: \<open>distance\<close> and \<open>addBbox\<close>\<close>

text \<open>
  Leaflet is not part of the repository. What the code calls of it is a parameter of the
  model, together with the arithmetic of JavaScript numbers (IEEE doubles) that the code
  uses: the literal \<open>0\<close>, \<open>+\<close> and \<open>Math.round\<close>. \<open>L.GeoJSON.coordsToLatLngs(coordinates,
  depth)\<close> gives an array of \<open>LatLng\<close> objects for depth 0 and an array of such arrays for
  depth 1; \<open>L.polyline(latLngs).getBounds()\<close> gives the two corners read by \<open>addBbox\<close>.
\<close>

record 'n latLng =
  lat :: 'n
  lng :: 'n
  alt :: "'n option"

datatype 'n latLngs = LatLngs "'n latLng list" | MultiLatLngs "'n latLng list list"

record 'n bounds =
  getSouthWest :: "'n latLng"
  getNorthEast :: "'n latLng"

record 'n leaflet =
  coordsToLatLngs :: "'n geometry \<Rightarrow> nat \<Rightarrow> error + 'n latLngs"
  polyline_getBounds :: "'n latLngs \<Rightarrow> error + 'n bounds"
  Earth_distance :: "'n latLng \<Rightarrow> 'n latLng \<Rightarrow> 'n"
  number_zero :: 'n
  number_add :: "'n \<Rightarrow> 'n \<Rightarrow> 'n"
  Math_round :: "'n \<Rightarrow> 'n"

text \<open>
  \<^verbatim>\<open>
  function distance(latLngs) {
      var Earth = L.CRS.Earth;
      if (0 === latLngs.length) {
          return 0;
      }
      if (!latLngs[0].hasOwnProperty('length')) {
          latLngs = [ latLngs ];
      }
      return latLngs.reduce(function (dist, seg) {
          var i, p, q;
          if (1 < seg.length) {
              for (i = seg.length - 1, p = seg[i]; 0 <= i; p = q, --i) {
                  q = seg[i];
                  dist += Earth.distance(p, q);
              }
          }
          return dist;
      }, 0);
  }
  \<close>
  \<open>segment_loop\<close> is the \<open>for\<close> loop, entered at \<open>i = seg.length - 1\<close> and counting down to
  \<open>0\<close>; \<open>segment_distance\<close> is the callback of \<open>reduce\<close>.
\<close>

fun segment_loop :: "'n leaflet \<Rightarrow> 'n latLng list \<Rightarrow> nat \<Rightarrow> 'n latLng \<Rightarrow> 'n \<Rightarrow> 'n" where
  "segment_loop L seg 0 p dist = number_add L dist (Earth_distance L p (seg ! 0))"
| "segment_loop L seg (Suc i) p dist =
     (let q = seg ! Suc i in segment_loop L seg i q (number_add L dist (Earth_distance L p q)))"

definition segment_distance :: "'n leaflet \<Rightarrow> 'n \<Rightarrow> 'n latLng list \<Rightarrow> 'n" where
  "segment_distance L dist seg =
     (if 1 < length seg then segment_loop L seg (length seg - 1) (seg ! (length seg - 1)) dist
      else dist)"

definition distance :: "'n leaflet \<Rightarrow> 'n latLngs \<Rightarrow> 'n" where
  "distance L latLngs =
     (case latLngs of
        LatLngs seg \<Rightarrow>
          if length seg = 0 then number_zero L
          else foldl (segment_distance L) (number_zero L) [seg]
      | MultiLatLngs segs \<Rightarrow>
          if length segs = 0 then number_zero L
          else foldl (segment_distance L) (number_zero L) segs)"

text \<open>
  \<^verbatim>\<open>
  function addBbox(feature) {
      assert.equal(feature.type, 'Feature');
      if (!feature.geometry.type.endsWith('LineString')) {
          return feature;
      }
      const geometry = feature.geometry;
      const depth = 'LineString' === geometry.type ? 0 : 1;
      const latLngs = L.GeoJSON.coordsToLatLngs(geometry.coordinates, depth);
      const bounds = L.polyline(latLngs).getBounds();
      const bbox = [ bounds.getSouthWest().lng, bounds.getSouthWest().lat,
                     bounds.getNorthEast().lng, bounds.getNorthEast().lat ];
      if (3 === (depth ? geometry.coordinates[0][0] : geometry.coordinates[0]).length) {
          bbox.splice(2, 0, bounds.getSouthWest().alt);
          bbox.splice(5, 0, bounds.getNorthEast().alt);
      } else {
          assert.equal((depth ? geometry.coordinates[0][0] : geometry.coordinates[0]).length, 2);
      }
      const properties = {
          'date': feature.properties.date,
          'distance':  Math.round(distance(latLngs)),
      };
      return { 'type': 'Feature', bbox, properties, geometry };
  }
  \<close>
  \<open>first_position\<close> is \<open>depth ? geometry.coordinates[0][0] : geometry.coordinates[0]\<close>, whose
  \<open>length\<close> is read: a \<open>TypeError\<close> when there is no such position. \<open>depth\<close> is 0 on a
  \<open>LineString\<close> and 1 on every other geometry.
\<close>

definition js_endsWith :: "string \<Rightarrow> string \<Rightarrow> bool" where
  "js_endsWith s suffix =
     (length suffix \<le> length s \<and> drop (length s - length suffix) s = suffix)"

definition js_splice_insert :: "nat \<Rightarrow> 'a \<Rightarrow> 'a list \<Rightarrow> 'a list" where
  "js_splice_insert i x xs = take i xs @ [x] @ drop i xs"

definition first_position :: "'n geometry \<Rightarrow> error + 'n position" where
  "first_position g =
     (case g of
        LineString cs \<Rightarrow> (case first cs of None \<Rightarrow> Inl TypeError | Some c \<Rightarrow> Inr c)
      | MultiLineString parts \<Rightarrow>
          (case first parts of
             None \<Rightarrow> Inl TypeError
           | Some part \<Rightarrow> (case first part of None \<Rightarrow> Inl TypeError | Some c \<Rightarrow> Inr c))
      | Point p \<Rightarrow> Inl TypeError)"

definition addBbox :: "'n leaflet \<Rightarrow> 'n feature \<Rightarrow> error + 'n feature" where
  "addBbox L feature =
     (if ftype feature \<noteq> ''Feature'' then Inl AssertionError
      else if \<not> js_endsWith (gtype (geometry feature)) ''LineString'' then Inr feature
      else
        (let geometry = geometry feature;
             depth = (if ''LineString'' = gtype geometry then 0 else 1) in
         case coordsToLatLngs L geometry depth of
           Inl e \<Rightarrow> Inl e
         | Inr latLngs \<Rightarrow>
             (case polyline_getBounds L latLngs of
                Inl e \<Rightarrow> Inl e
              | Inr bounds \<Rightarrow>
                  (let bbox = [Some (lng (getSouthWest bounds)), Some (lat (getSouthWest bounds)),
                               Some (lng (getNorthEast bounds)), Some (lat (getNorthEast bounds))] in
                   case first_position geometry of
                     Inl e \<Rightarrow> Inl e
                   | Inr c \<Rightarrow>
                       (case (if 3 = length c then
                                Inr (js_splice_insert 5 (alt (getNorthEast bounds))
                                      (js_splice_insert 2 (alt (getSouthWest bounds)) bbox))
                              else if length c \<noteq> 2 then Inl AssertionError
                              else Inr bbox) of
                          Inl e \<Rightarrow> Inl e
                        | Inr bbox \<Rightarrow>
                            (case properties feature of
                               None \<Rightarrow> Inl TypeError
                             | Some p \<Rightarrow>
                                 Inr \<lparr>ftype = ''Feature'', bbox = Some bbox,
                                      properties = Some (empty_properties
                                        \<lparr>date := date p,
                                         distance_prop := Some (Math_round L (distance L latLngs))\<rparr>),
                                      geometry = geometry\<rparr>))))))"

section \<open>util/togj.js: the pipeline\<close>

text \<open>
  \<^verbatim>\<open>
  const walks = fs.readdirSync(GPXDIR).
      filter(file => file.endsWith('.gpx')).
      flatMap(file => gpxToJson(`${GPXDIR}/${file}`)).
      flatMap(multiSplit).
      filter(feature => 'LineString' === feature.geometry.type).
      flatMap(dateSplit).
      sort(timeCompare);

  const geojson = {
      'type': 'FeatureCollection',
      'features': forEachUniqueRange(
          walks,
          (lhs, rhs) => lhs.properties.date === rhs.properties.date,
          mergeLines
      ).map(addBbox),
  };
  \<close>
  The model starts from the features that \<open>gpxToJson\<close> returned for all files; \<open>geojson\<close>
  is the \<open>features\<close> member of the result.
\<close>

definition sameDate :: "'n feature option \<Rightarrow> 'n feature option \<Rightarrow> error + bool" where
  "sameDate lhs rhs =
     (case lhs of
        None \<Rightarrow> Inl TypeError
      | Some l \<Rightarrow>
          (case properties l of
             None \<Rightarrow> Inl TypeError
           | Some pl \<Rightarrow>
               (case rhs of
                  None \<Rightarrow> Inl TypeError
                | Some r \<Rightarrow>
                    (case properties r of
                       None \<Rightarrow> Inl TypeError
                     | Some pr \<Rightarrow> Inr (date pl = date pr)))))"

definition flatMapE :: "('a \<Rightarrow> error + 'b list) \<Rightarrow> 'a list \<Rightarrow> error + 'b list" where
  "flatMapE f xs = (case mapE f xs of Inl e \<Rightarrow> Inl e | Inr yss \<Rightarrow> Inr (concat yss))"

fun flatMap_dateSplit :: "'n feature list \<Rightarrow> (error + 'n feature list) option" where
  "flatMap_dateSplit [] = Some (Inr [])"
| "flatMap_dateSplit (feature # features) =
     (case dateSplit feature of
        None \<Rightarrow> None
      | Some (Inl e) \<Rightarrow> Some (Inl e)
      | Some (Inr days) \<Rightarrow>
          (case flatMap_dateSplit features of
             None \<Rightarrow> None
           | Some (Inl e) \<Rightarrow> Some (Inl e)
           | Some (Inr days') \<Rightarrow> Some (Inr (days @ days'))))"

definition walks :: "'n feature list \<Rightarrow> (error + 'n feature list) option" where
  "walks features =
     (case flatMapE multiSplit features of
        Inl e \<Rightarrow> Some (Inl e)
      | Inr parts \<Rightarrow>
          (case flatMap_dateSplit
                  (filter (\<lambda>feature. ''LineString'' = gtype (geometry feature)) parts) of
             None \<Rightarrow> None
           | Some (Inl e) \<Rightarrow> Some (Inl e)
           | Some (Inr days) \<Rightarrow> Some (sortE timeCompare days)))"

definition geojson :: "'n leaflet \<Rightarrow> 'n feature list \<Rightarrow> (error + 'n feature list) option" where
  "geojson L features =
     (case walks features of
        None \<Rightarrow> None
      | Some (Inl e) \<Rightarrow> Some (Inl e)
      | Some (Inr ws) \<Rightarrow>
          (case forEachUniqueRange ws sameDate mergeLines of
             None \<Rightarrow> None
           | Some (Inl e) \<Rightarrow> Some (Inl e)
           | Some (Inr merged) \<Rightarrow>
               Some (mapE (\<lambda>m. case m of None \<Rightarrow> Inl TypeError | Some feature \<Rightarrow> addBbox L feature)
                      merged)))"

section \<open>A Leaflet to run the model on\<close>

text \<open>
  The theorems below hold for every \<open>'n leaflet\<close>. To run \<open>addBbox\<close> on a concrete
  feature, \<open>grid_leaflet\<close> is a small instance on integer coordinates. It follows the
  documented behaviour of the calls: \<open>coordsToLatLng\<close> builds \<open>LatLng(c[1], c[0], c[2])\<close> and
  refuses a position without latitude or longitude, the bounds are the least and greatest
  latitude and longitude (their corners carry no altitude). The distance of two points is
  the sum of the differences of their coordinates, in place of the great-circle distance.
\<close>

definition grid_latLng :: "int position \<Rightarrow> error + int latLng" where
  "grid_latLng c =
     (if length c < 2 then Inl LeafletError
      else Inr \<lparr>lat = c ! 1, lng = c ! 0, alt = (if 2 < length c then Some (c ! 2) else None)\<rparr>)"

definition grid_coordsToLatLngs :: "int geometry \<Rightarrow> nat \<Rightarrow> error + int latLngs" where
  "grid_coordsToLatLngs g depth =
     (case g of
        LineString cs \<Rightarrow>
          (if depth = 0 then
             (case mapE grid_latLng cs of Inl e \<Rightarrow> Inl e | Inr ps \<Rightarrow> Inr (LatLngs ps))
           else Inl LeafletError)
      | MultiLineString parts \<Rightarrow>
          (if depth = 1 then
             (case mapE (mapE grid_latLng) parts of
                Inl e \<Rightarrow> Inl e
              | Inr pss \<Rightarrow> Inr (MultiLatLngs pss))
           else Inl LeafletError)
      | Point p \<Rightarrow> Inl LeafletError)"

definition grid_getBounds :: "int latLngs \<Rightarrow> error + int bounds" where
  "grid_getBounds latLngs =
     (let ps = (case latLngs of LatLngs seg \<Rightarrow> seg | MultiLatLngs segs \<Rightarrow> concat segs) in
      case ps of
        [] \<Rightarrow> Inl TypeError
      | p # qs \<Rightarrow>
          Inr \<lparr>getSouthWest = \<lparr>lat = fold min (map lat qs) (lat p),
                                 lng = fold min (map lng qs) (lng p), alt = None\<rparr>,
               getNorthEast = \<lparr>lat = fold max (map lat qs) (lat p),
                                 lng = fold max (map lng qs) (lng p), alt = None\<rparr>\<rparr>)"

definition grid_leaflet :: "int leaflet" where
  "grid_leaflet =
     \<lparr>coordsToLatLngs = grid_coordsToLatLngs,
      polyline_getBounds = grid_getBounds,
      Earth_distance = (\<lambda>p q. \<bar>lat p - lat q\<bar> + \<bar>lng p - lng q\<bar>),
      number_zero = 0,
      number_add = (+),
      Math_round = (\<lambda>x. x)\<rparr>"

section \<open>Reading features, and features to run the model on\<close>

text \<open>The coordinates of a line and the timestamps of a line, as the statements below read them.\<close>

definition line_of :: "'n feature \<Rightarrow> 'n position list" where
  "line_of feature = (case geometry feature of LineString cs \<Rightarrow> cs | _ \<Rightarrow> [])"

definition times_of :: "'n feature \<Rightarrow> string list" where
  "times_of feature =
     (case properties feature of
        None \<Rightarrow> []
      | Some p \<Rightarrow> (case coordTimes p of Some (Times ts) \<Rightarrow> ts | _ \<Rightarrow> []))"

text \<open>Two walks of one day, as \<open>dateSplit\<close> leaves them.\<close>

definition morning :: "int feature" where
  "morning =
     \<lparr>ftype = ''Feature'', bbox = None,
      properties = Some
        \<lparr>time = Some ''2017-06-10T08:00:00Z'',
         coordTimes = Some (Times [''2017-06-10T08:00:00Z'', ''2017-06-10T08:05:00Z'']),
         gpxFileName = Some ''morning.gpx'', date = Some ''2017-06-10'',
         distance_prop = None, rest = [(''name'', ''Morning'')]\<rparr>,
      geometry = LineString [[0, 0], [1, 1]]\<rparr>"

definition afternoon :: "int feature" where
  "afternoon =
     \<lparr>ftype = ''Feature'', bbox = None,
      properties = Some
        \<lparr>time = Some ''2017-06-10T14:00:00Z'',
         coordTimes = Some (Times [''2017-06-10T14:00:00Z'', ''2017-06-10T14:05:00Z'',
                                   ''2017-06-10T14:10:00Z'']),
         gpxFileName = Some ''afternoon.gpx'', date = Some ''2017-06-10'',
         distance_prop = None, rest = []\<rparr>,
      geometry = LineString [[1, 1], [3, 2], [4, 2]]\<rparr>"

text \<open>A track recorded across midnight, as \<open>gpxToJson\<close> returns it.\<close>

definition overnight :: "int feature" where
  "overnight =
     \<lparr>ftype = ''Feature'', bbox = None,
      properties = Some
        \<lparr>time = Some ''2017-06-10T23:50:00Z'',
         coordTimes = Some (Times [''2017-06-10T23:50:00Z'', ''2017-06-10T23:55:00Z'',
                                   ''2017-06-11T00:05:00Z'', ''2017-06-11T00:10:00Z'']),
         gpxFileName = Some ''overnight.gpx'', date = None,
         distance_prop = None, rest = []\<rparr>,
      geometry = LineString [[0, 0], [1, 0], [2, 0], [3, 0]]\<rparr>"

text \<open>A line of three points, only two of which have a timestamp.\<close>

definition mismatched :: "int feature" where
  "mismatched =
     \<lparr>ftype = ''Feature'', bbox = None,
      properties = Some
        \<lparr>time = Some ''2017-06-12T09:00:00Z'',
         coordTimes = Some (Times [''2017-06-12T09:00:00Z'', ''2017-06-12T09:05:00Z'']),
         gpxFileName = Some ''mismatched.gpx'', date = None,
         distance_prop = None, rest = []\<rparr>,
      geometry = LineString [[0, 0], [1, 1], [2, 2]]\<rparr>"

text \<open>A multi-line whose second part has two points and one timestamp.\<close>

definition mismatched_part :: "int feature" where
  "mismatched_part =
     \<lparr>ftype = ''Feature'', bbox = None,
      properties = Some
        \<lparr>time = Some ''2017-06-13T09:00:00Z'',
         coordTimes = Some (MultiTimes [[''2017-06-13T09:00:00Z'', ''2017-06-13T09:05:00Z''],
                                        [''2017-06-13T10:00:00Z'']]),
         gpxFileName = Some ''parts.gpx'', date = None,
         distance_prop = None, rest = []\<rparr>,
      geometry = MultiLineString [[[0, 0], [1, 1]], [[2, 2], [3, 3]]]\<rparr>"

text \<open>A line whose first position has two components and whose second has three.\<close>

definition mixed :: "int feature" where
  "mixed =
     \<lparr>ftype = ''Feature'', bbox = None,
      properties = Some
        \<lparr>time = None, coordTimes = None, gpxFileName = Some ''2017-06-14-mixed.gpx'',
         date = Some ''2017-06-14'', distance_prop = None, rest = []\<rparr>,
      geometry = LineString [[0, 0], [1, 1, 5]]\<rparr>"

text \<open>The two walks of the day merged, and the merged feature after \<open>addBbox\<close>.\<close>

definition merged_day :: "int feature" where
  "merged_day =
     \<lparr>ftype = ''Feature'', bbox = None,
      properties = Some
        \<lparr>time = Some ''2017-06-10T08:00:00Z'',
         coordTimes = Some (MultiTimes
           [[''2017-06-10T08:00:00Z'', ''2017-06-10T08:05:00Z''],
            [''2017-06-10T14:00:00Z'', ''2017-06-10T14:05:00Z'', ''2017-06-10T14:10:00Z'']]),
         gpxFileName = None, date = Some ''2017-06-10'', distance_prop = None, rest = []\<rparr>,
      geometry = MultiLineString [[[0, 0], [1, 1]], [[1, 1], [3, 2], [4, 2]]]\<rparr>"

definition enriched_day :: "int feature" where
  "enriched_day =
     \<lparr>ftype = ''Feature'', bbox = Some [Some 0, Some 0, Some 4, Some 2],
      properties = Some
        \<lparr>time = None, coordTimes = None, gpxFileName = None, date = Some ''2017-06-10'',
         distance_prop = Some 6, rest = []\<rparr>,
      geometry = MultiLineString [[[0, 0], [1, 1]], [[1, 1], [3, 2], [4, 2]]]\<rparr>"

text \<open>A route of the same day, with a \<open>time\<close> and no \<open>coordTimes\<close>.\<close>

definition untimed :: "int feature" where
  "untimed =
     \<lparr>ftype = ''Feature'', bbox = None,
      properties = Some
        \<lparr>time = Some ''2017-06-10T18:00:00Z'', coordTimes = None,
         gpxFileName = Some ''route.gpx'', date = Some ''2017-06-10'',
         distance_prop = None, rest = []\<rparr>,
      geometry = LineString [[4, 2], [5, 3]]\<rparr>"

section \<open>The addition of JavaScript numbers\<close>








section \<open>Properties of \<open>search\<close>\<close>

text \<open>
  On a difference below \<open>2^31\<close> the shift halves; from \<open>2^31\<close> on, \<open>ToInt32\<close> wraps it to a
  negative number.
\<close>


lemma js_sar_half: "0 \<le> x \<Longrightarrow> x < 2 ^ 31 \<Longrightarrow> js_sar x 1 = x div 2"
  by (simp add: js_sar_def ToInt32_def)

lemma search_loop_threshold:
  assumes len: "int (length array) < 2 ^ 31 - 1"
    and mono: "\<forall>i < length array. pred (Some (array ! i)) = (t \<le> i)"
  shows "- 1 \<le> le \<Longrightarrow> le < int t \<Longrightarrow> int t \<le> ri \<Longrightarrow> ri \<le> int (length array)
    \<Longrightarrow> search_loop array pred le ri = Some (int t)"
proof (induction "nat (ri - le)" arbitrary: le ri rule: less_induct)
  case less
  show ?case
  proof (cases "1 + le = ri")
    case True
    with less.prems show ?thesis by (subst search_loop.simps) simp
  next
    case False
    define mi where "mi = le + js_sar (ri - le) 1"
    have half: "js_sar (ri - le) 1 = (ri - le) div 2"
      using less.prems len by (intro js_sar_half) auto
    have mi: "le < mi" "mi < ri" using False less.prems unfolding mi_def half by auto
    then have range: "0 \<le> mi" "mi < int (length array)" using less.prems by auto
    then have at: "array_at array mi = Some (array ! nat mi)" by (simp add: array_at_def)
    have p: "pred (array_at array mi) = (int t \<le> mi)"
      using mono range by (simp add: at le_nat_iff)
    show ?thesis
    proof (cases "int t \<le> mi")
      case True
      have "search_loop array pred le mi = Some (int t)"
        using less.prems mi True by (intro less.hyps) auto
      then show ?thesis using False p True
        by (subst search_loop.simps) (simp add: mi_def[symmetric] del: One_nat_def)
    next
      case F: False
      have "search_loop array pred mi ri = Some (int t)"
        using less.prems mi F by (intro less.hyps) auto
      then show ?thesis using False p F
        by (subst search_loop.simps) (simp add: mi_def[symmetric] del: One_nat_def)
    qed
  qed
qed

lemma search_loop_returns:
  assumes len: "int (length array) < 2 ^ 31 - 1"
  shows "- 1 \<le> le \<Longrightarrow> le < ri \<Longrightarrow> ri \<le> int (length array)
    \<Longrightarrow> \<exists>i. search_loop array pred le ri = Some i \<and> le < i \<and> i \<le> ri"
proof (induction "nat (ri - le)" arbitrary: le ri rule: less_induct)
  case less
  show ?case
  proof (cases "1 + le = ri")
    case True
    with less.prems show ?thesis by (subst search_loop.simps) simp
  next
    case False
    define mi where "mi = le + js_sar (ri - le) 1"
    have half: "js_sar (ri - le) 1 = (ri - le) div 2"
      using less.prems len by (intro js_sar_half) auto
    have mi: "le < mi" "mi < ri" using False less.prems unfolding mi_def half by auto
    show ?thesis
    proof (cases "pred (array_at array mi)")
      case True
      have "\<exists>i. search_loop array pred le mi = Some i \<and> le < i \<and> i \<le> mi"
        using less.prems mi by (intro less.hyps) auto
      then show ?thesis using False True mi
        by (subst search_loop.simps) (auto simp add: mi_def[symmetric] simp del: One_nat_def)
    next
      case F: False
      have "\<exists>i. search_loop array pred mi ri = Some i \<and> mi < i \<and> i \<le> ri"
        using less.prems mi by (intro less.hyps) auto
      then show ?thesis using False F mi
        by (subst search_loop.simps) (auto simp add: mi_def[symmetric] simp del: One_nat_def)
    qed
  qed
qed

lemma ToInt32_wrap: "2 ^ 31 \<le> d \<Longrightarrow> d \<le> 2 ^ 32 \<Longrightarrow> ToInt32 d = d - 2 ^ 32"
proof -
  assume d: "2 ^ 31 \<le> d" "d \<le> 2 ^ 32"
  have "d + 2 ^ 31 = (d - 2 ^ 31) + 2 ^ 32" by simp
  then have "(d + 2 ^ 31) mod 2 ^ 32 = ((d - 2 ^ 31) + 2 ^ 32) mod 2 ^ 32" by (rule arg_cong)
  also have "\<dots> = (d - 2 ^ 31) mod 2 ^ 32" by (rule mod_add_self2)
  also have "\<dots> = d - 2 ^ 31" using d by (intro mod_pos_pos_trivial) auto
  finally show ?thesis by (simp add: ToInt32_def)
qed

lemma search_loop_stuck:
  assumes run: "search_loop array (\<lambda>_. False) le ri = Some y"
    and inv: "2 ^ 31 \<le> ri - le" "ri - le \<le> 2 ^ 32"
  shows False
proof -
  have "pred = (\<lambda>_. False) \<longrightarrow> 2 ^ 31 \<le> ri - le \<longrightarrow> ri - le \<le> 2 ^ 32 \<longrightarrow> False"
    if "search_loop array pred le ri = Some y" for pred
  proof (rule search_loop.raw_induct[where P = "\<lambda>array pred le ri y.
      pred = (\<lambda>_. False) \<longrightarrow> 2 ^ 31 \<le> ri - le \<longrightarrow> ri - le \<le> 2 ^ 32 \<longrightarrow> False", OF _ that])
    fix f :: "'a list \<Rightarrow> ('a option \<Rightarrow> bool) \<Rightarrow> int \<Rightarrow> int \<Rightarrow> int option"
      and array pred le ri y
    assume IH: "\<And>array pred le ri y. f array pred le ri = Some y \<Longrightarrow>
        pred = (\<lambda>_. False) \<longrightarrow> 2 ^ 31 \<le> ri - le \<longrightarrow> ri - le \<le> 2 ^ 32 \<longrightarrow> False"
      and body: "(if 1 + le \<noteq> ri then
          (let mi = le + js_sar (ri - le) 1 in
           if pred (array_at array mi) then f array pred le mi else f array pred mi ri)
         else Some ri) = Some y"
    show "pred = (\<lambda>_. False) \<longrightarrow> 2 ^ 31 \<le> ri - le \<longrightarrow> ri - le \<le> 2 ^ 32 \<longrightarrow> False"
    proof (intro impI)
      assume pred: "pred = (\<lambda>_. False)" and d: "2 ^ 31 \<le> ri - le" "ri - le \<le> 2 ^ 32"
      define s where "s = js_sar (ri - le) 1"
      have s: "s \<le> 0" "ri - le - s \<le> 2 ^ 32"
        using d unfolding s_def js_sar_def by (auto simp: ToInt32_wrap)
      have ne: "1 + le \<noteq> ri" using d by auto
      from body ne pred have "f array pred (le + s) ri = Some y"
        by (simp add: s_def Let_def del: One_nat_def)
      from IH[OF this] pred d s show False by auto
    qed
  qed
  with run inv show False by blast
qed



lemma ToInt32_id: "- (2 ^ 31) \<le> d \<Longrightarrow> d < 2 ^ 31 \<Longrightarrow> ToInt32 d = d"
  by (simp add: ToInt32_def mod_pos_pos_trivial)

lemma search_loop_runaway:
  assumes run: "search_loop array (\<lambda>_. True) le ri = Some y"
    and inv: "ri - le = 2 ^ 31 \<or> (- (2 ^ 31) \<le> ri - le \<and> ri - le < 0)"
  shows False
proof -
  have "pred = (\<lambda>_. True) \<longrightarrow> (ri - le = 2 ^ 31 \<or> (- (2 ^ 31) \<le> ri - le \<and> ri - le < 0)) \<longrightarrow> False"
    if "search_loop array pred le ri = Some y" for pred
  proof (rule search_loop.raw_induct[where P = "\<lambda>array pred le ri y.
      pred = (\<lambda>_. True) \<longrightarrow> (ri - le = 2 ^ 31 \<or> (- (2 ^ 31) \<le> ri - le \<and> ri - le < 0)) \<longrightarrow> False", OF _ that])
    fix f :: "'a list \<Rightarrow> ('a option \<Rightarrow> bool) \<Rightarrow> int \<Rightarrow> int \<Rightarrow> int option"
      and array pred le ri y
    assume IH: "\<And>array pred le ri y. f array pred le ri = Some y \<Longrightarrow>
        pred = (\<lambda>_. True) \<longrightarrow> (ri - le = 2 ^ 31 \<or> (- (2 ^ 31) \<le> ri - le \<and> ri - le < 0)) \<longrightarrow> False"
      and body: "(if 1 + le \<noteq> ri then
          (let mi = le + js_sar (ri - le) 1 in
           if pred (array_at array mi) then f array pred le mi else f array pred mi ri)
         else Some ri) = Some y"
    show "pred = (\<lambda>_. True) \<longrightarrow> (ri - le = 2 ^ 31 \<or> (- (2 ^ 31) \<le> ri - le \<and> ri - le < 0)) \<longrightarrow> False"
    proof (intro impI)
      assume pred: "pred = (\<lambda>_. True)"
        and d: "ri - le = 2 ^ 31 \<or> (- (2 ^ 31) \<le> ri - le \<and> ri - le < 0)"
      define s where "s = js_sar (ri - le) 1"
      have "ToInt32 (ri - le) = (if ri - le = 2 ^ 31 then - (2 ^ 31) else ri - le)"
        using d ToInt32_id[of "ri - le"] by (auto simp: ToInt32_def)
      then have s: "- (2 ^ 31) \<le> s" "s < 0"
        using d unfolding s_def js_sar_def by auto
      have ne: "1 + le \<noteq> ri" using d by auto
      from body ne pred have "f array pred le (le + s) = Some y"
        by (simp add: s_def Let_def del: One_nat_def)
      from IH[OF this] pred s show False by auto
    qed
  qed
  with run inv show False by blast
qed

section \<open>Properties of \<open>forEachUniqueRange\<close>\<close>

lemma scanRange_pure:
  assumes pure: "\<forall>x\<in>set array. \<forall>y\<in>set array. equal (Some x) (Some y) = Inr (eq x y)"
    and lo: "lo < length array"
  shows "hi \<le> length array \<Longrightarrow>
    \<exists>hi'. scanRange array equal lo hi = Some (Inr hi') \<and> hi \<le> hi' \<and> hi' \<le> length array
      \<and> (\<forall>i. hi \<le> i \<and> i < hi' \<longrightarrow> eq (array ! lo) (array ! i))
      \<and> (hi' = length array \<or> \<not> eq (array ! lo) (array ! hi'))"
proof (induction "length array - hi" arbitrary: hi rule: less_induct)
  case less
  show ?case
  proof (cases "hi = length array")
    case True
    then show ?thesis by (subst scanRange.simps) auto
  next
    case False
    with less.prems have hi: "hi < length array" by simp
    have eq: "equal (array_at array (int lo)) (array_at array (int hi)) = Inr (eq (array ! lo) (array ! hi))"
      using pure lo hi by (simp add: array_at_def)
    show ?thesis
    proof (cases "eq (array ! lo) (array ! hi)")
      case F: False
      then show ?thesis using False eq less.prems by (subst scanRange.simps) auto
    next
      case True
      have "\<exists>hi'. scanRange array equal lo (Suc hi) = Some (Inr hi') \<and> Suc hi \<le> hi' \<and> hi' \<le> length array
      \<and> (\<forall>i. Suc hi \<le> i \<and> i < hi' \<longrightarrow> eq (array ! lo) (array ! i))
      \<and> (hi' = length array \<or> \<not> eq (array ! lo) (array ! hi'))"
        using hi by (intro less.hyps) auto
      then obtain hi' where h: "scanRange array equal lo (Suc hi) = Some (Inr hi')" "Suc hi \<le> hi'" 
        "hi' \<le> length array" "\<forall>i. Suc hi \<le> i \<and> i < hi' \<longrightarrow> eq (array ! lo) (array ! i)"
        "hi' = length array \<or> \<not> eq (array ! lo) (array ! hi')" by blast
      have all: "\<forall>i. hi \<le> i \<and> i < hi' \<longrightarrow> eq (array ! lo) (array ! i)"
        using h(4) True by (metis Suc_leI le_neq_implies_less)
      have "scanRange array equal lo hi = Some (Inr hi')"
        using False eq True h(1) by (subst scanRange.simps) simp
      with h all show ?thesis by auto
    qed
  qed
qed


lemma rangeLoop_pure:
  assumes pure: "\<forall>x\<in>set array. \<forall>y\<in>set array. equal (Some x) (Some y) = Inr (eq x y)"
  shows "lo \<le> length array \<Longrightarrow>
    \<exists>runs. tiles lo runs (length array) \<and> (\<forall>r\<in>set runs. run_of eq array r)
      \<and> (\<forall>(func :: nat \<Rightarrow> nat \<Rightarrow> 'a list \<Rightarrow> error + 'b) res. rangeLoop array equal func lo res =
            Some (case collect func array runs of Inl e \<Rightarrow> Inl e | Inr rs \<Rightarrow> Inr (res @ rs)))"
proof (induction "length array - lo" arbitrary: lo rule: less_induct)
  case less
  show ?case
  proof (cases "lo = length array")
    case True
    have "\<forall>(func :: nat \<Rightarrow> nat \<Rightarrow> 'a list \<Rightarrow> error + 'b) res. rangeLoop array equal func lo res = Some (Inr res)"
      using True by (subst rangeLoop.simps) simp
    then show ?thesis using True
      by (intro exI[of _ "[]"]) (simp add: collect_def)
  next
    case False
    with less.prems have lo: "lo < length array" by simp
    from scanRange_pure[OF pure lo, of "1 + lo"] lo
    obtain hi where hi: "scanRange array equal lo (1 + lo) = Some (Inr hi)" "lo < hi"
      "hi \<le> length array" "\<forall>i. 1 + lo \<le> i \<and> i < hi \<longrightarrow> eq (array ! lo) (array ! i)"
      "hi = length array \<or> \<not> eq (array ! lo) (array ! hi)"
      by auto
    have run: "run_of eq array (lo, hi)"
      using hi by (auto simp: run_of_def)
    obtain runs where runs: "tiles hi runs (length array)" "\<forall>r\<in>set runs. run_of eq array r"
      "\<forall>(func :: nat \<Rightarrow> nat \<Rightarrow> 'a list \<Rightarrow> error + 'b) res. rangeLoop array equal func hi res =
            Some (case collect func array runs of Inl e \<Rightarrow> Inl e | Inr rs \<Rightarrow> Inr (res @ rs))"
    proof -
      have "length array - hi < length array - lo" using hi lo by arith
      from less.hyps[OF this hi(3)] show ?thesis using that by blast
    qed
    have "rangeLoop array equal func lo res =
        Some (case collect func array ((lo, hi) # runs) of Inl e \<Rightarrow> Inl e | Inr rs \<Rightarrow> Inr (res @ rs))"
      for func :: "nat \<Rightarrow> nat \<Rightarrow> 'a list \<Rightarrow> error + 'b" and res
    proof (cases "func lo hi array")
      case (Inl e)
      then show ?thesis using False hi(1)
        by (subst rangeLoop.simps) (simp add: collect_def)
    next
      case (Inr r)
      have "rangeLoop array equal func hi (res @ [r]) =
          Some (case collect func array runs of Inl e \<Rightarrow> Inl e | Inr rs \<Rightarrow> Inr ((res @ [r]) @ rs))"
        using runs(3) by blast
      then show ?thesis using False hi(1) Inr
        by (subst rangeLoop.simps) (simp add: collect_def split: sum.splits)
    qed
    then show ?thesis using run runs hi
      by (intro exI[of _ "(lo, hi) # runs"]) simp
  qed
qed

lemma tiles_le: "tiles a runs b \<Longrightarrow> a \<le> b"
proof (induction runs arbitrary: a)
  case Nil
  then show ?case by simp
next
  case (Cons r runs)
  obtain lo hi where r: "r = (lo, hi)" by (cases r)
  from Cons.prems r have "a < hi" "tiles hi runs b" by auto
  with Cons.IH[of hi] show ?case by simp
qed

lemma js_slice_append: "a \<le> m \<Longrightarrow> m \<le> b \<Longrightarrow> js_slice a m xs @ js_slice m b xs = js_slice a b xs"
proof -
  assume "a \<le> m" "m \<le> b"
  then obtain k l where m: "m = a + k" and b: "b = a + k + l"
    by (metis le_Suc_ex)
  show ?thesis
    unfolding js_slice_def m b by (simp add: take_add drop_drop add.commute)
qed

lemma tiles_concat:
  "tiles a runs b \<Longrightarrow> concat (map (\<lambda>(lo, hi). js_slice lo hi xs) runs) = js_slice a b xs"
proof (induction runs arbitrary: a)
  case Nil
  then show ?case by (simp add: js_slice_def)
next
  case (Cons r runs)
  obtain lo hi where r: "r = (lo, hi)" by (cases r)
  from Cons.prems r have t: "lo = a" "lo < hi" "tiles hi runs b" by auto
  from tiles_le[OF t(3)] t show ?case
    by (simp add: r Cons.IH[OF t(3)] js_slice_append)
qed

lemma tiles_nonempty: "tiles a runs b \<Longrightarrow> \<forall>(lo, hi)\<in>set runs. lo < hi"
proof (induction runs arbitrary: a)
  case Nil
  then show ?case by simp
next
  case (Cons r runs)
  obtain lo hi where r: "r = (lo, hi)" by (cases r)
  from Cons.prems r have "lo < hi" "tiles hi runs b" by auto
  with Cons.IH[of hi] r show ?case by simp
qed

lemma forEachUniqueRange_runs:
  assumes "\<forall>x\<in>set array. \<forall>y\<in>set array. equal (Some x) (Some y) = Inr (eq x y)"
  shows "\<exists>runs. tiles 0 runs (length array) \<and> (\<forall>r\<in>set runs. run_of eq array r)
    \<and> (\<forall>func :: nat \<Rightarrow> nat \<Rightarrow> 'a list \<Rightarrow> error + 'b.
          forEachUniqueRange array equal func = Some (collect func array runs))"
proof -
  from rangeLoop_pure[OF assms, of 0]
  obtain runs where runs: "tiles 0 runs (length array)" "\<forall>r\<in>set runs. run_of eq array r"
    and res: "\<forall>(func :: nat \<Rightarrow> nat \<Rightarrow> 'a list \<Rightarrow> error + 'b) res.
        rangeLoop array equal func 0 res =
          Some (case collect func array runs of Inl e \<Rightarrow> Inl e | Inr rs \<Rightarrow> Inr (res @ rs))"
    by auto
  have "forEachUniqueRange array equal func = Some (collect func array runs)"
    for func :: "nat \<Rightarrow> nat \<Rightarrow> 'a list \<Rightarrow> error + 'b"
    using res by (simp add: forEachUniqueRange_def split: sum.splits)
  with runs show ?thesis by blast
qed

lemma tiles_whole: "tiles 0 runs (length xs) \<Longrightarrow> concat (map (\<lambda>(lo, hi). js_slice lo hi xs) runs) = xs"
  using tiles_concat[of 0 runs "length xs" xs] by (simp add: js_slice_def)

lemma tiles_whole_same_length:
  "tiles 0 runs (length xs) \<Longrightarrow> length ys = length xs
     \<Longrightarrow> concat (map (\<lambda>(lo, hi). js_slice lo hi ys) runs) = ys"
  using tiles_whole[of runs ys] by simp

section \<open>Properties of \<open>Array.prototype.map\<close> with exceptions\<close>

lemma mapE_Inr: "\<forall>x\<in>set xs. f x = Inr (g x) \<Longrightarrow> mapE f xs = Inr (map g xs)"
  by (induction xs) auto

lemma mapE_Inl:
  "\<forall>x\<in>set xs. f x = Inl e \<or> (\<exists>y. f x = Inr y) \<Longrightarrow> \<exists>x\<in>set xs. f x = Inl e \<Longrightarrow> mapE f xs = Inl e"
proof (induction xs)
  case Nil
  then show ?case by simp
next
  case (Cons x xs)
  show ?case
  proof (cases "f x")
    case (Inl e')
    with Cons.prems(1) show ?thesis by auto
  next
    case (Inr y)
    with Cons.prems have "\<exists>x\<in>set xs. f x = Inl e" by auto
    with Cons.IH Cons.prems(1) have "mapE f xs = Inl e" by auto
    with Inr show ?thesis by simp
  qed
qed

lemma js_slice_nth:
  "lo < hi \<Longrightarrow> lo < length xs \<Longrightarrow> first (js_slice lo hi xs) = Some (xs ! lo)"
  by (cases "js_slice lo hi xs")
    (auto simp: first_def js_slice_def hd_drop_conv_nth dest!: arg_cong[where f=hd] simp: hd_take)

section \<open>Properties of \<open>dateSplit\<close>\<close>

lemma tiles_in_range: "tiles a runs b \<Longrightarrow> \<forall>(lo, hi)\<in>set runs. a \<le> lo \<and> lo < hi \<and> hi \<le> b"
proof (induction runs arbitrary: a)
  case Nil
  then show ?case by simp
next
  case (Cons r runs)
  obtain lo hi where r: "r = (lo, hi)" by (cases r)
  from Cons.prems r have t: "lo = a" "lo < hi" "tiles hi runs b" by auto
  from Cons.IH[OF t(3)] tiles_le[OF t(3)] t r show ?case by fastforce
qed

lemma sameDay_pure:
  "\<forall>x\<in>set ts. \<forall>y\<in>set ts. sameDay (Some x) (Some y) = Inr (take 10 x = take 10 y)"
  by (simp add: sameDay_def)

lemma dateSplit_aligned:
  assumes "ftype feature = ''Feature''"
    and "geometry feature = LineString coordinates"
    and "properties feature = Some p"
    and "coordTimes p = Some (Times ts)"
    and "length ts = length coordinates"
  shows "dateSplit feature =
     forEachUniqueRange ts sameDay (\<lambda>lo hi array. dateSplit_run p ts coordinates lo hi)"
  using assms by (simp add: dateSplit_def)

lemma collect_dateSplit_run:
  assumes "tiles 0 runs (length ts)"
  shows "collect (\<lambda>lo hi array. dateSplit_run p ts coordinates lo hi) ts runs =
     Inr (map (\<lambda>(lo, hi).
            \<lparr>ftype = ''Feature'', bbox = None,
             properties = Some (p\<lparr>coordTimes := Some (Times (js_slice lo hi ts)),
                                  time := Some (ts ! lo),
                                  date := Some (take 10 (ts ! lo))\<rparr>),
             geometry = LineString (js_slice lo hi coordinates)\<rparr>) runs)"
  unfolding collect_def
proof (rule mapE_Inr, rule ballI)
  fix r assume r: "r \<in> set runs"
  obtain lo hi where lh: "r = (lo, hi)" by (cases r)
  from tiles_in_range[OF assms] r lh have "lo < hi" "hi \<le> length ts" by auto
  then have "first (js_slice lo hi ts) = Some (ts ! lo)" by (intro js_slice_nth) auto
  then show "(case r of (lo, hi) \<Rightarrow> dateSplit_run p ts coordinates lo hi) =
      Inr (case r of (lo, hi) \<Rightarrow>
            \<lparr>ftype = ''Feature'', bbox = None,
             properties = Some (p\<lparr>coordTimes := Some (Times (js_slice lo hi ts)),
                                  time := Some (ts ! lo),
                                  date := Some (take 10 (ts ! lo))\<rparr>),
             geometry = LineString (js_slice lo hi coordinates)\<rparr>)"
    by (simp add: lh dateSplit_run_def)
qed

lemma two_day_runs:
  assumes tiles: "tiles 0 runs (length (xs @ ys))"
    and runs: "\<forall>r\<in>set runs. run_of (\<lambda>a b. take 10 a = take 10 b) (xs @ ys) r"
    and xs: "xs \<noteq> []" "\<forall>t\<in>set xs. take 10 t = d1"
    and ys: "ys \<noteq> []" "\<forall>t\<in>set ys. take 10 t = d2"
    and days: "d1 \<noteq> d2"
  shows "runs = [(0, length xs), (length xs, length xs + length ys)]"
proof -
  let ?ts = "xs @ ys"
  have dx: "take 10 (?ts ! i) = d1" if "i < length xs" for i
    using that xs(2) by (simp add: nth_append)
  have dy: "take 10 (?ts ! i) = d2" if "length xs \<le> i" "i < length xs + length ys" for i
    using that ys(2) by (simp add: nth_append)
  from tiles xs(1) obtain hi1 rest1 where r1: "runs = (0, hi1) # rest1" "0 < hi1" "tiles hi1 rest1 (length ?ts)"
    by (cases runs) auto
  from runs r1 have run1: "run_of (\<lambda>a b. take 10 a = take 10 b) ?ts (0, hi1)" by simp
  have hi1: "hi1 = length xs"
  proof (rule ccontr)
    assume ne: "hi1 \<noteq> length xs"
    show False
    proof (cases "hi1 < length xs")
      case True
      with run1 have "take 10 (?ts ! 0) \<noteq> take 10 (?ts ! hi1)" by (auto simp: run_of_def)
      with dx[of 0] dx[OF True] xs(1) show False by simp
    next
      case False
      with ne have "length xs \<in> {Suc 0..<hi1}" using xs(1) by (auto simp: Suc_le_eq)
      with run1 have "take 10 (?ts ! 0) = take 10 (?ts ! length xs)" by (auto simp: run_of_def)
      with dx[of 0] dy[of "length xs"] xs(1) ys(1) days show False by simp
    qed
  qed
  from r1(3) ys(1) hi1 obtain hi2 rest2 where r2: "rest1 = (length xs, hi2) # rest2" "length xs < hi2"
    "tiles hi2 rest2 (length ?ts)"
    by (cases rest1) auto
  from runs r1 r2 have run2: "run_of (\<lambda>a b. take 10 a = take 10 b) ?ts (length xs, hi2)" by simp
  have hi2: "hi2 = length ?ts"
  proof (rule ccontr)
    assume ne: "hi2 \<noteq> length ?ts"
    with run2 have lt: "hi2 < length xs + length ys" and
      "take 10 (?ts ! length xs) \<noteq> take 10 (?ts ! hi2)" by (auto simp: run_of_def)
    with dy[of "length xs"] dy[of hi2] r2(2) ys(1) show False by simp
  qed
  have "rest2 = []"
  proof (cases rest2)
    case Nil
    then show ?thesis .
  next
    case (Cons r rest3)
    obtain lo hi where "r = (lo, hi)" by (cases r)
    with Cons r2(3) hi2 have "length ?ts < hi" "tiles hi rest3 (length ?ts)" by auto
    with tiles_le[of hi rest3 "length ?ts"] show ?thesis by simp
  qed
  with r1 r2 hi1 hi2 show ?thesis by simp
qed

section \<open>Properties of \<open>multiSplit\<close>\<close>

lemma multiSplit_part_outcome:
  assumes "properties feature = Some p" "coordTimes p = Some (MultiTimes tss)"
  shows "multiSplit_part feature coordinates i = Inl AssertionError
     \<or> (\<exists>y. multiSplit_part feature coordinates i = Inr y)"
  using assms by (simp add: multiSplit_part_def)

lemma multiSplit_part_mismatch:
  assumes "properties feature = Some p" "coordTimes p = Some (MultiTimes tss)"
    and "\<not> (i < length tss \<and> length (tss ! i) = length coordinates)"
  shows "multiSplit_part feature coordinates i = Inl AssertionError"
  using assms by (auto simp: multiSplit_part_def)

section \<open>Properties of \<open>distance\<close>\<close>




section \<open>Properties of \<open>addBbox\<close>\<close>

lemma line_geometry:
  "js_endsWith (gtype g) ''LineString'' \<Longrightarrow> (\<exists>cs. g = LineString cs) \<or> (\<exists>parts. g = MultiLineString parts)"
  by (cases g) (auto simp: js_endsWith_def)

lemma addBbox_line:
  assumes "ftype feature = ''Feature''"
    and "js_endsWith (gtype (geometry feature)) ''LineString''"
    and "coordsToLatLngs L (geometry feature)
           (if ''LineString'' = gtype (geometry feature) then 0 else 1) = Inr latLngs"
    and "polyline_getBounds L latLngs = Inr bounds"
    and "first_position (geometry feature) = Inr c"
  shows "addBbox L feature =
     (if length c = 3 then
        (case properties feature of
           None \<Rightarrow> Inl TypeError
         | Some p \<Rightarrow>
             Inr \<lparr>ftype = ''Feature'',
                  bbox = Some [Some (lng (getSouthWest bounds)), Some (lat (getSouthWest bounds)),
                               alt (getSouthWest bounds),
                               Some (lng (getNorthEast bounds)), Some (lat (getNorthEast bounds)),
                               alt (getNorthEast bounds)],
                  properties = Some (empty_properties
                    \<lparr>date := date p,
                     distance_prop := Some (Math_round L (distance L latLngs))\<rparr>),
                  geometry = geometry feature\<rparr>)
      else if length c \<noteq> 2 then Inl AssertionError
      else
        (case properties feature of
           None \<Rightarrow> Inl TypeError
         | Some p \<Rightarrow>
             Inr \<lparr>ftype = ''Feature'',
                  bbox = Some [Some (lng (getSouthWest bounds)), Some (lat (getSouthWest bounds)),
                               Some (lng (getNorthEast bounds)), Some (lat (getNorthEast bounds))],
                  properties = Some (empty_properties
                    \<lparr>date := date p,
                     distance_prop := Some (Math_round L (distance L latLngs))\<rparr>),
                  geometry = geometry feature\<rparr>))"
  using assms by (simp add: addBbox_def Let_def js_splice_insert_def split: option.splits)

lemma addBbox_Inr:
  assumes "ftype feature = ''Feature''"
    and "js_endsWith (gtype (geometry feature)) ''LineString''"
    and "addBbox L feature = Inr out"
  shows "\<exists>latLngs bounds c.
      coordsToLatLngs L (geometry feature)
           (if ''LineString'' = gtype (geometry feature) then 0 else 1) = Inr latLngs
      \<and> polyline_getBounds L latLngs = Inr bounds
      \<and> first_position (geometry feature) = Inr c"
  using assms by (auto simp: addBbox_def Let_def split: sum.splits)

section \<open>Properties of \<open>mergeLines\<close>\<close>

lemma mergeLines_merged:
  assumes "mergeLines lo hi features = Inr (Some merged)" and "lo + 2 \<le> hi"
  shows "ftype merged = ''Feature'' \<and> (\<exists>parts. geometry merged = MultiLineString parts)
    \<and> (\<exists>p. properties merged = Some p)"
proof -
  have "\<not> int hi - int lo \<le> 1" using assms(2) by simp
  with assms(1) show ?thesis
    by (auto simp: mergeLines_def Let_def split: sum.splits option.splits)
qed

lemma mapE_fails:
  "\<exists>x\<in>set xs. \<exists>e. f x = Inl e \<Longrightarrow> \<exists>e. mapE f xs = Inl e \<and> (\<exists>x\<in>set xs. f x = Inl e)"
proof (induction xs)
  case Nil
  then show ?case by simp
next
  case (Cons x xs)
  show ?case
  proof (cases "f x")
    case (Inl e)
    then show ?thesis by auto
  next
    case (Inr y)
    with Cons.prems have "\<exists>x\<in>set xs. \<exists>e. f x = Inl e" by auto
    from Cons.IH[OF this] obtain e where "mapE f xs = Inl e" "\<exists>x\<in>set xs. f x = Inl e"
      by blast
    with Inr show ?thesis by auto
  qed
qed

lemma walk_times_error: "walk_times walk = Inl e \<Longrightarrow> e = TypeError \<or> e = AssertionError"
  by (auto simp: walk_times_def split: option.splits if_splits)

section \<open>Sums of distances\<close>







section \<open>Properties of the addition of doubles\<close>







section \<open>Runs of two or more lines in \<open>mergeLines\<close>\<close>

lemma mergeLines_long:
  assumes run: "lo + 2 \<le> hi" "hi \<le> length features"
    and lines: "\<forall>walk\<in>set (js_slice lo hi features). \<exists>cs. geometry walk = LineString cs"
    and p0: "properties (features ! lo) = Some p0"
  shows "mergeLines lo hi features =
      (case coordTimes p0 of
         None \<Rightarrow>
           Inr (Some \<lparr>ftype = ''Feature'', bbox = None,
                      properties = Some (empty_properties\<lparr>date := date p0\<rparr>),
                      geometry = MultiLineString (map line_of (js_slice lo hi features))\<rparr>)
       | Some ct0 \<Rightarrow>
           (case mapE walk_times (js_slice lo hi features) of
              Inl e \<Rightarrow> Inl e
            | Inr cts \<Rightarrow>
                (case mapE flat_times cts of
                   Inl e \<Rightarrow> Inl e
                 | Inr tss \<Rightarrow>
                     Inr (Some \<lparr>ftype = ''Feature'', bbox = None,
                                properties = Some (empty_properties
                                  \<lparr>date := date p0,
                                   coordTimes := Some (MultiTimes tss),
                                   time := (case first tss of
                                              None \<Rightarrow> None
                                            | Some ts0 \<Rightarrow> first ts0)\<rparr>),
                                geometry = MultiLineString (map line_of (js_slice lo hi features))\<rparr>))))"
proof -
  have far: "\<not> int hi - int lo \<le> 1" using run by simp
  have lo: "lo < hi" "lo < length features" using run by auto
  have head: "first (js_slice lo hi features) = Some (features ! lo)"
    using lo by (rule js_slice_nth)
  have coords: "mapE line_coordinates (js_slice lo hi features)
      = Inr (map line_of (js_slice lo hi features))"
    using lines by (intro mapE_Inr) (auto simp: line_coordinates_def line_of_def)
  show ?thesis
    using far head coords p0 by (simp add: mergeLines_def Let_def)
qed

lemma mergeLines_mismatch:
  assumes run: "lo + 2 \<le> hi" "hi \<le> length features"
    and lines: "\<forall>walk\<in>set (js_slice lo hi features). \<exists>cs. geometry walk = LineString cs"
    and p0: "properties (features ! lo) = Some p0" "coordTimes p0 \<noteq> None"
    and walk: "feature \<in> set (js_slice lo hi features)" "properties feature = Some p"
      "coordTimes p = Some ct" "geometry feature = LineString cs" "times_length ct \<noteq> length cs"
  shows "mergeLines lo hi features = Inl AssertionError \<or> mergeLines lo hi features = Inl TypeError"
    and "\<forall>walk\<in>set (js_slice lo hi features). \<exists>p' ct'. properties walk = Some p' \<and> coordTimes p' = Some ct'
       \<Longrightarrow> mergeLines lo hi features = Inl AssertionError"
proof -
  from p0(2) obtain ct0 where ct0: "coordTimes p0 = Some ct0" by auto
  have pre: "mergeLines lo hi features =
      (case mapE walk_times (js_slice lo hi features) of
         Inl e \<Rightarrow> Inl e
       | Inr cts \<Rightarrow>
           (case mapE flat_times cts of
              Inl e \<Rightarrow> Inl e
            | Inr tss \<Rightarrow>
                Inr (Some \<lparr>ftype = ''Feature'', bbox = None,
                           properties = Some (empty_properties
                             \<lparr>date := date p0,
                              coordTimes := Some (MultiTimes tss),
                              time := (case first tss of
                                         None \<Rightarrow> None
                                       | Some ts0 \<Rightarrow> first ts0)\<rparr>),
                           geometry = MultiLineString (map line_of (js_slice lo hi features))\<rparr>)))"
    using mergeLines_long[OF run lines p0(1)] ct0 by simp
  have bad: "walk_times feature = Inl AssertionError"
    using walk by (simp add: walk_times_def)
  with walk(1) have "\<exists>w\<in>set (js_slice lo hi features). \<exists>e. walk_times w = Inl e" by blast
  from mapE_fails[OF this] obtain e where e: "mapE walk_times (js_slice lo hi features) = Inl e"
    "\<exists>w\<in>set (js_slice lo hi features). walk_times w = Inl e"
    by blast
  then have "e = TypeError \<or> e = AssertionError" by (auto dest: walk_times_error)
  with pre e(1) show "mergeLines lo hi features = Inl AssertionError
      \<or> mergeLines lo hi features = Inl TypeError"
    by auto
  assume all: "\<forall>walk\<in>set (js_slice lo hi features).
      \<exists>p' ct'. properties walk = Some p' \<and> coordTimes p' = Some ct'"
  have "mapE walk_times (js_slice lo hi features) = Inl AssertionError"
  proof (rule mapE_Inl)
    show "\<forall>w\<in>set (js_slice lo hi features).
        walk_times w = Inl AssertionError \<or> (\<exists>y. walk_times w = Inr y)"
    proof
      fix w assume "w \<in> set (js_slice lo hi features)"
      with all obtain p' ct' where "properties w = Some p'" "coordTimes p' = Some ct'" by blast
      then show "walk_times w = Inl AssertionError \<or> (\<exists>y. walk_times w = Inr y)"
        by (simp add: walk_times_def)
    qed
    show "\<exists>w\<in>set (js_slice lo hi features). walk_times w = Inl AssertionError"
      using bad walk(1) by blast
  qed
  with pre show "mergeLines lo hi features = Inl AssertionError" by simp
qed

section \<open>Claims about \<open>search\<close>\<close>

text \<open>
  C1. When \<open>pred\<close> is false on the elements below an index \<open>t\<close> and true on those from \<open>t\<close>
  on, \<open>search\<close> is to return \<open>t\<close>; the comment above the function says so for every array
  (it finds \<open>0 <= i <= array.length\<close> such that \<open>!pred(i - 1) && pred(i)\<close>). It does not on an
  array of \<open>2^31 - 1\<close> elements with the predicate that is false on all of them, whose
  threshold is the length of the array: the first difference \<open>ri - le\<close> is \<open>2^31\<close>, which
  \<open>>> 1\<close> takes for \<open>-2^31\<close> and halves to \<open>-2^30\<close>, so \<open>mi\<close> lies below \<open>le\<close>, and \<open>le\<close> moves
  away from \<open>ri\<close> for ever. The call never returns.
\<close>

theorem search_threshold_failing_input:
  "search (replicate 2147483647 ()) (\<lambda>_. False) = None
   \<and> search (replicate 2147483647 ()) (\<lambda>_. False)
       \<noteq> Some (int (length (replicate 2147483647 ())))"
proof -
  have "search (replicate 2147483647 ()) (\<lambda>_. False) = None"
  proof (cases "search (replicate 2147483647 ()) (\<lambda>_. False)")
    case None
    then show ?thesis .
  next
    case (Some y)
    then have "search_loop (replicate 2147483647 ()) (\<lambda>_. False) (- 1) 2147483647 = Some y"
      by (simp add: search_def)
    from search_loop_stuck[OF this] show ?thesis by simp
  qed
  then show ?thesis by simp
qed

text \<open>
  On arrays of at most \<open>2^31 - 2\<close> elements, where \<open>(ri - le) >> 1\<close> is half of \<open>ri - le\<close>,
  \<open>search\<close> returns the threshold \<open>t\<close>: \<open>pred\<close> holds at \<open>t\<close> unless \<open>t\<close> is the length, and
  fails at \<open>t - 1\<close> unless \<open>t\<close> is 0.
\<close>

theorem search_returns_threshold:
  assumes "int (length array) < 2 ^ 31 - 1"
    and "t \<le> length array"
    and "\<forall>i<length array. pred (Some (array ! i)) = (t \<le> i)"
  shows "search array pred = Some (int t)
    \<and> (t = length array \<or> pred (Some (array ! t)))
    \<and> (t = 0 \<or> \<not> pred (Some (array ! (t - 1))))"
proof -
  have "search_loop array pred (- 1) (int (length array)) = Some (int t)"
    using assms by (intro search_loop_threshold) auto
  moreover have "t = length array \<or> pred (Some (array ! t))"
    using assms(2,3) by (cases "t = length array") auto
  moreover have "t = 0 \<or> \<not> pred (Some (array ! (t - 1)))"
    using assms(2,3) by (cases t) auto
  ultimately show ?thesis by (simp add: search_def)
qed

theorem search_returns_threshold_witness:
  "search [1, 2, 3, 4, 5 :: int] (\<lambda>x. case x of None \<Rightarrow> True | Some v \<Rightarrow> 3 \<le> v) = Some 2"
proof -
  have len: "int (length [1, 2, 3, 4, 5 :: int]) < 2 ^ 31 - 1" by simp
  have t: "2 \<le> length [1, 2, 3, 4, 5 :: int]" by simp
  have mono: "\<forall>i<length [1, 2, 3, 4, 5 :: int].
      (\<lambda>x. case x of None \<Rightarrow> True | Some v \<Rightarrow> 3 \<le> v) (Some ([1, 2, 3, 4, 5 :: int] ! i)) = (2 \<le> i)"
    by (simp add: nth_Cons' less_Suc_eq numeral_eq_Suc)
  from search_returns_threshold[OF len t mono] show ?thesis by simp
qed

text \<open>
  C10. For every array and every predicate, monotonic or not, \<open>search\<close> is to return an
  index between 0 and the length of the array, each iteration making the interval between
  \<open>le\<close> and \<open>ri\<close> smaller. It does not on an array of \<open>2^31 - 1\<close> elements with the predicate
  that is true everywhere: \<open>(ri - le) >> 1\<close> is \<open>-2^30\<close> in the first iteration, \<open>ri\<close> drops
  below \<open>le\<close>, and \<open>1 + le\<close> never equals \<open>ri\<close> again. The loop does not end.
\<close>

theorem search_terminates_failing_input:
  "search (replicate 2147483647 ()) (\<lambda>_. True) = None"
proof (cases "search (replicate 2147483647 ()) (\<lambda>_. True)")
  case None
  then show ?thesis .
next
  case (Some y)
  then have "search_loop (replicate 2147483647 ()) (\<lambda>_. True) (- 1) 2147483647 = Some y"
    by (simp add: search_def)
  from search_loop_runaway[OF this] show ?thesis by simp
qed

text \<open>
  On arrays of at most \<open>2^31 - 2\<close> elements every iteration puts \<open>mi\<close> strictly between \<open>le\<close>
  and \<open>ri\<close>: \<open>search\<close> returns, and its result is an index between 0 and the length.
\<close>

theorem search_terminates_in_range:
  assumes "int (length array) < 2 ^ 31 - 1"
  shows "\<exists>i. search array pred = Some i \<and> 0 \<le> i \<and> i \<le> int (length array)"
proof -
  have "\<exists>i. search_loop array pred (- 1) (int (length array)) = Some i
      \<and> - 1 < i \<and> i \<le> int (length array)"
    using assms by (intro search_loop_returns) auto
  then show ?thesis by (auto simp: search_def)
qed

theorem search_terminates_in_range_witness:
  "\<exists>i. search [3, 1, 2 :: int] (\<lambda>x. x = Some 1) = Some i \<and> 0 \<le> i \<and> i \<le> 3"
  using search_terminates_in_range[of "[3, 1, 2 :: int]" "\<lambda>x. x = Some 1"] by simp

section \<open>Claims about \<open>forEachUniqueRange\<close>\<close>

text \<open>
  C2. For every array and every predicate \<open>equal\<close> (a callback that returns a boolean on
  the elements of the array), \<open>forEachUniqueRange\<close> returns: it calls \<open>func\<close> on a list of
  runs \<open>[lo, hi)\<close> and returns the results in order. The runs tile the index range from 0
  to the length, the slices of the runs concatenated in order are the array, every run is
  non-empty, and there is no run when the array is empty.
\<close>

theorem forEachUniqueRange_partition:
  assumes "\<forall>x\<in>set array. \<forall>y\<in>set array. equal (Some x) (Some y) = Inr (eq x y)"
  shows "\<exists>runs.
      (\<forall>func :: nat \<Rightarrow> nat \<Rightarrow> 'a list \<Rightarrow> error + 'b.
          forEachUniqueRange array equal func = Some (collect func array runs))
    \<and> tiles 0 runs (length array)
    \<and> concat (map (\<lambda>(lo, hi). js_slice lo hi array) runs) = array
    \<and> (\<forall>(lo, hi)\<in>set runs. lo < hi)
    \<and> (array = [] \<longrightarrow> runs = [])"
proof -
  from rangeLoop_pure[OF assms, of 0]
  obtain runs where runs: "tiles 0 runs (length array)"
    and res: "\<forall>(func :: nat \<Rightarrow> nat \<Rightarrow> 'a list \<Rightarrow> error + 'b) res.
        rangeLoop array equal func 0 res =
          Some (case collect func array runs of Inl e \<Rightarrow> Inl e | Inr rs \<Rightarrow> Inr (res @ rs))"
    by auto
  have call: "forEachUniqueRange array equal func = Some (collect func array runs)"
    for func :: "nat \<Rightarrow> nat \<Rightarrow> 'a list \<Rightarrow> error + 'b"
    using res by (simp add: forEachUniqueRange_def split: sum.splits)
  have whole: "concat (map (\<lambda>(lo, hi). js_slice lo hi array) runs) = array"
    using tiles_concat[OF runs, of array] by (simp add: js_slice_def)
  have empty: "array = [] \<longrightarrow> runs = []"
    using runs by (cases runs) (auto dest: tiles_le)
  from call runs whole tiles_nonempty[OF runs] empty show ?thesis by blast
qed

theorem forEachUniqueRange_partition_witness:
  "\<exists>runs.
      (\<forall>func :: nat \<Rightarrow> nat \<Rightarrow> string \<Rightarrow> error + string.
          forEachUniqueRange ''aabccc'' (\<lambda>a b. Inr (a = b)) func
            = Some (collect func ''aabccc'' runs))
    \<and> tiles 0 runs (length ''aabccc'')
    \<and> concat (map (\<lambda>(lo, hi). js_slice lo hi ''aabccc'') runs) = ''aabccc''
    \<and> (\<forall>(lo, hi)\<in>set runs. lo < hi)
    \<and> (''aabccc'' = [] \<longrightarrow> runs = [])"
  using forEachUniqueRange_partition[of "''aabccc''" "\<lambda>a b. Inr (a = b)" "(=)"]
  by simp

section \<open>Claims about the split by date\<close>

text \<open>
  C3. A feature whose \<open>coordTimes\<close> does not have one timestamp for each coordinate ends the
  run in two places. As a part of a multi-line, \<open>multiSplit\<close> fails an assertion at it. As
  a line, \<open>mergeLines\<close> fails at it when its run has two or more lines and the first of them
  has \<open>coordTimes\<close>: by the assertion on the lengths when every line of the run has
  \<open>coordTimes\<close>, by that assertion or a \<open>TypeError\<close> otherwise. \<open>dateSplit\<close> does not fail at
  it: the mismatch is one of the tests of its first branch, which returns the feature once,
  with its geometry, its properties and the date of \<open>time || gpxFileName\<close> (a \<open>TypeError\<close>
  when the feature has neither); the assertion that names the file stands behind that
  branch, so no mismatch reaches it. \<open>mergeLines\<close> returns the line as it is when it is alone
  in its run, and merges it without a look at its \<open>coordTimes\<close> when the first line of its
  run has none.
\<close>

theorem mismatch_outcome:
  assumes "ftype feature = ''Feature''"
    and "properties feature = Some p"
    and "coordTimes p = Some ct"
  shows "(\<forall>cs. geometry feature = LineString cs \<and> times_length ct \<noteq> length cs \<longrightarrow>
            dateSplit feature =
              Some (case js_or (time p) (gpxFileName p) of
                      None \<Rightarrow> Inl TypeError
                    | Some s \<Rightarrow>
                        Inr [\<lparr>ftype = ''Feature'', bbox = None,
                              properties = Some (p\<lparr>date := Some (take 10 s)\<rparr>),
                              geometry = LineString cs\<rparr>]))
       \<and> (\<forall>parts tss i. geometry feature = MultiLineString parts \<and> ct = MultiTimes tss
            \<and> i < length parts \<and> \<not> (i < length tss \<and> length (tss ! i) = length (parts ! i)) \<longrightarrow>
            multiSplit feature = Inl AssertionError)
       \<and> (\<forall>features lo. lo < length features \<and> features ! lo = feature \<longrightarrow>
            mergeLines lo (lo + 1) features = Inr (Some feature))
       \<and> (\<forall>features lo hi cs p0.
            lo + 2 \<le> hi \<and> hi \<le> length features
            \<and> (\<forall>walk\<in>set (js_slice lo hi features). \<exists>cs'. geometry walk = LineString cs')
            \<and> properties (features ! lo) = Some p0
            \<and> feature \<in> set (js_slice lo hi features)
            \<and> geometry feature = LineString cs \<and> times_length ct \<noteq> length cs \<longrightarrow>
            (coordTimes p0 = None \<longrightarrow>
               mergeLines lo hi features =
                 Inr (Some \<lparr>ftype = ''Feature'', bbox = None,
                            properties = Some (empty_properties\<lparr>date := date p0\<rparr>),
                            geometry = MultiLineString (map line_of (js_slice lo hi features))\<rparr>))
            \<and> (coordTimes p0 \<noteq> None \<longrightarrow>
                 mergeLines lo hi features = Inl AssertionError
                 \<or> mergeLines lo hi features = Inl TypeError)
            \<and> (coordTimes p0 \<noteq> None
                 \<and> (\<forall>walk\<in>set (js_slice lo hi features).
                       \<exists>p' ct'. properties walk = Some p' \<and> coordTimes p' = Some ct') \<longrightarrow>
                 mergeLines lo hi features = Inl AssertionError))"
proof (intro conjI allI impI)
  fix cs assume "geometry feature = LineString cs \<and> times_length ct \<noteq> length cs"
  then show "dateSplit feature =
              Some (case js_or (time p) (gpxFileName p) of
                      None \<Rightarrow> Inl TypeError
                    | Some s \<Rightarrow>
                        Inr [\<lparr>ftype = ''Feature'', bbox = None,
                              properties = Some (p\<lparr>date := Some (take 10 s)\<rparr>),
                              geometry = LineString cs\<rparr>])"
    using assms by (simp add: dateSplit_def dateSplit_single_def split: option.splits)
next
  fix parts tss i
  assume a: "geometry feature = MultiLineString parts \<and> ct = MultiTimes tss
            \<and> i < length parts \<and> \<not> (i < length tss \<and> length (tss ! i) = length (parts ! i))"
  then have ct: "coordTimes p = Some (MultiTimes tss)" using assms(3) by simp
  have "mapE (\<lambda>(coordinates, i). multiSplit_part feature coordinates i)
          (zip parts [0..<length parts]) = Inl AssertionError"
  proof (rule mapE_Inl)
    show "\<forall>x\<in>set (zip parts [0..<length parts]).
        (case x of (coordinates, i) \<Rightarrow> multiSplit_part feature coordinates i) = Inl AssertionError
        \<or> (\<exists>y. (case x of (coordinates, i) \<Rightarrow> multiSplit_part feature coordinates i) = Inr y)"
      using multiSplit_part_outcome[OF assms(2) ct] by auto
    have "(parts ! i, i) \<in> set (zip parts [0..<length parts])"
      using a by (auto simp: in_set_zip intro!: exI[of _ i])
    moreover have "multiSplit_part feature (parts ! i) i = Inl AssertionError"
      using a by (intro multiSplit_part_mismatch[OF assms(2) ct]) auto
    ultimately show "\<exists>x\<in>set (zip parts [0..<length parts]).
        (case x of (coordinates, i) \<Rightarrow> multiSplit_part feature coordinates i) = Inl AssertionError"
      by force
  qed
  then show "multiSplit feature = Inl AssertionError"
    using a assms(1) by (simp add: multiSplit_def)
next
  fix features :: "'a feature list" and lo
  assume "lo < length features \<and> features ! lo = feature"
  then show "mergeLines lo (lo + 1) features = Inr (Some feature)"
    by (simp add: mergeLines_def array_at_def)
next
  fix features :: "'a feature list" and lo hi cs p0
  assume a: "lo + 2 \<le> hi \<and> hi \<le> length features
            \<and> (\<forall>walk\<in>set (js_slice lo hi features). \<exists>cs'. geometry walk = LineString cs')
            \<and> properties (features ! lo) = Some p0
            \<and> feature \<in> set (js_slice lo hi features)
            \<and> geometry feature = LineString cs \<and> times_length ct \<noteq> length cs"
  then have run: "lo + 2 \<le> hi" "hi \<le> length features"
    and lines: "\<forall>walk\<in>set (js_slice lo hi features). \<exists>cs'. geometry walk = LineString cs'"
    and p0: "properties (features ! lo) = Some p0"
    and walk: "feature \<in> set (js_slice lo hi features)" "geometry feature = LineString cs"
      "times_length ct \<noteq> length cs"
    by blast+
  {
    assume "coordTimes p0 = None"
    then show "mergeLines lo hi features =
                 Inr (Some \<lparr>ftype = ''Feature'', bbox = None,
                            properties = Some (empty_properties\<lparr>date := date p0\<rparr>),
                            geometry = MultiLineString (map line_of (js_slice lo hi features))\<rparr>)"
      using mergeLines_long[OF run lines p0] by simp
  }
  {
    assume some: "coordTimes p0 \<noteq> None"
    show "mergeLines lo hi features = Inl AssertionError
        \<or> mergeLines lo hi features = Inl TypeError"
      by (rule mergeLines_mismatch(1)[OF run lines p0 some walk(1) assms(2,3) walk(2,3)])
  }
  {
    assume "coordTimes p0 \<noteq> None
        \<and> (\<forall>walk\<in>set (js_slice lo hi features).
              \<exists>p' ct'. properties walk = Some p' \<and> coordTimes p' = Some ct')"
    then show "mergeLines lo hi features = Inl AssertionError"
      using mergeLines_mismatch(2)[OF run lines p0 _ walk(1) assms(2,3) walk(2,3)] by blast
  }
qed

theorem mismatch_outcome_witness:
  "dateSplit mismatched =
     Some (Inr [\<lparr>ftype = ''Feature'', bbox = None,
                 properties = Some
                   \<lparr>time = Some ''2017-06-12T09:00:00Z'',
                    coordTimes = Some (Times [''2017-06-12T09:00:00Z'', ''2017-06-12T09:05:00Z'']),
                    gpxFileName = Some ''mismatched.gpx'', date = Some ''2017-06-12'',
                    distance_prop = None, rest = []\<rparr>,
                 geometry = LineString [[0, 0], [1, 1], [2, 2]]\<rparr>])
   \<and> multiSplit mismatched_part = Inl AssertionError
   \<and> mergeLines 0 1 [mismatched] = Inr (Some mismatched)
   \<and> mergeLines 0 2 [morning, mismatched] = Inl AssertionError"
proof -
  let ?p = "\<lparr>time = Some ''2017-06-12T09:00:00Z'',
         coordTimes = Some (Times [''2017-06-12T09:00:00Z'', ''2017-06-12T09:05:00Z'']),
         gpxFileName = Some ''mismatched.gpx'', date = None,
         distance_prop = None, rest = []\<rparr> :: int properties"
  let ?tss = "[[''2017-06-13T09:00:00Z'', ''2017-06-13T09:05:00Z''], [''2017-06-13T10:00:00Z'']]"
  let ?q = "\<lparr>time = Some ''2017-06-13T09:00:00Z'', coordTimes = Some (MultiTimes ?tss),
         gpxFileName = Some ''parts.gpx'', date = None,
         distance_prop = None, rest = []\<rparr> :: int properties"
  let ?m = "\<lparr>time = Some ''2017-06-10T08:00:00Z'',
         coordTimes = Some (Times [''2017-06-10T08:00:00Z'', ''2017-06-10T08:05:00Z'']),
         gpxFileName = Some ''morning.gpx'', date = Some ''2017-06-10'',
         distance_prop = None, rest = [(''name'', ''Morning'')]\<rparr> :: int properties"
  have line: "ftype mismatched = ''Feature''" "properties mismatched = Some ?p"
    "coordTimes ?p = Some (Times [''2017-06-12T09:00:00Z'', ''2017-06-12T09:05:00Z''])"
    by (simp_all add: mismatched_def)
  have multi: "ftype mismatched_part = ''Feature''" "properties mismatched_part = Some ?q"
    "coordTimes ?q = Some (MultiTimes ?tss)"
    by (simp_all add: mismatched_part_def)
  from mismatch_outcome[OF line, THEN conjunct1, rule_format, of "[[0, 0], [1, 1], [2, 2]]"]
  have "dateSplit mismatched =
     Some (Inr [\<lparr>ftype = ''Feature'', bbox = None,
                 properties = Some
                   \<lparr>time = Some ''2017-06-12T09:00:00Z'',
                    coordTimes = Some (Times [''2017-06-12T09:00:00Z'', ''2017-06-12T09:05:00Z'']),
                    gpxFileName = Some ''mismatched.gpx'', date = Some ''2017-06-12'',
                    distance_prop = None, rest = []\<rparr>,
                 geometry = LineString [[0, 0], [1, 1], [2, 2]]\<rparr>])"
    by (simp add: mismatched_def js_or_def)
  moreover
  from mismatch_outcome[OF multi, THEN conjunct2, THEN conjunct1, rule_format,
      of "[[[0, 0], [1, 1]], [[2, 2], [3, 3]]]" ?tss 1]
  have "multiSplit mismatched_part = Inl AssertionError"
    by (simp add: mismatched_part_def)
  moreover
  from mismatch_outcome[OF line, THEN conjunct2, THEN conjunct2, THEN conjunct1, rule_format,
      of 0 "[mismatched]"]
  have "mergeLines 0 1 [mismatched] = Inr (Some mismatched)" by simp
  moreover
  have slice: "js_slice 0 2 [morning, mismatched] = [morning, mismatched]"
    by (simp add: js_slice_def)
  have run: "0 + 2 \<le> (2 :: nat) \<and> 2 \<le> length [morning, mismatched]
      \<and> (\<forall>walk\<in>set (js_slice 0 2 [morning, mismatched]). \<exists>cs'. geometry walk = LineString cs')
      \<and> properties ([morning, mismatched] ! 0) = Some ?m
      \<and> mismatched \<in> set (js_slice 0 2 [morning, mismatched])
      \<and> geometry mismatched = LineString [[0, 0], [1, 1], [2, 2]]
      \<and> times_length (Times [''2017-06-12T09:00:00Z'', ''2017-06-12T09:05:00Z''])
          \<noteq> length [[0, 0], [1, 1], [2, 2 :: int]]"
    unfolding slice by (simp add: morning_def mismatched_def)
  have carry: "coordTimes ?m \<noteq> None
      \<and> (\<forall>walk\<in>set (js_slice 0 2 [morning, mismatched]).
            \<exists>p' ct'. properties walk = Some p' \<and> coordTimes p' = Some ct')"
    unfolding slice by (simp add: morning_def mismatched_def)
  from mismatch_outcome[OF line, THEN conjunct2, THEN conjunct2, THEN conjunct2, rule_format,
      OF run, THEN conjunct2, THEN conjunct2, rule_format, OF carry]
  have "mergeLines 0 2 [morning, mismatched] = Inl AssertionError" .
  ultimately show ?thesis by simp
qed

text \<open>
  A line of three points with two timestamps, alone in its file: \<open>dateSplit\<close> returns it
  with the date of its \<open>time\<close>, and the whole pipeline returns one feature for it.
\<close>

theorem mismatch_abort_counterexample:
  "dateSplit mismatched =
     Some (Inr [\<lparr>ftype = ''Feature'', bbox = None,
                 properties = Some
                   \<lparr>time = Some ''2017-06-12T09:00:00Z'',
                    coordTimes = Some (Times [''2017-06-12T09:00:00Z'', ''2017-06-12T09:05:00Z'']),
                    gpxFileName = Some ''mismatched.gpx'', date = Some ''2017-06-12'',
                    distance_prop = None, rest = []\<rparr>,
                 geometry = LineString [[0, 0], [1, 1], [2, 2]]\<rparr>])
   \<and> geojson grid_leaflet [mismatched] =
     Some (Inr [\<lparr>ftype = ''Feature'', bbox = Some [Some 0, Some 0, Some 2, Some 2],
                 properties = Some
                   \<lparr>time = None, coordTimes = None, gpxFileName = None,
                    date = Some ''2017-06-12'', distance_prop = Some 4, rest = []\<rparr>,
                 geometry = LineString [[0, 0], [1, 1], [2, 2]]\<rparr>])"
  by code_simp

text \<open>
  C4. On a line with one timestamp for each coordinate, \<open>dateSplit\<close> returns one feature for
  each run of a list of runs \<open>[lo, hi)\<close>. The feature of a run has the slice of the
  coordinates and the slice of the timestamps of the run, the first timestamp of the run
  as \<open>time\<close> and its first 10 characters as \<open>date\<close>. The runs tile the indices, so every
  point is in exactly one feature, and the slices put together are the input. All
  timestamps of a run have the first 10 characters of its first one, and the timestamp
  after the run, when there is one, has others: the runs are the maximal runs of one
  calendar date. When the timestamps are those of one day followed by those of another day,
  there are exactly two runs.
\<close>

theorem dateSplit_day_runs:
  assumes "ftype feature = ''Feature''"
    and "geometry feature = LineString coordinates"
    and "properties feature = Some p"
    and "coordTimes p = Some (Times ts)"
    and "length ts = length coordinates"
  shows "\<exists>runs.
      dateSplit feature =
        Some (Inr (map (\<lambda>(lo, hi).
                \<lparr>ftype = ''Feature'', bbox = None,
                 properties = Some (p\<lparr>coordTimes := Some (Times (js_slice lo hi ts)),
                                      time := Some (ts ! lo),
                                      date := Some (take 10 (ts ! lo))\<rparr>),
                 geometry = LineString (js_slice lo hi coordinates)\<rparr>) runs))
    \<and> tiles 0 runs (length ts)
    \<and> concat (map (\<lambda>(lo, hi). js_slice lo hi ts) runs) = ts
    \<and> concat (map (\<lambda>(lo, hi). js_slice lo hi coordinates) runs) = coordinates
    \<and> (\<forall>(lo, hi)\<in>set runs.
          (\<forall>i\<in>{lo..<hi}. take 10 (ts ! i) = take 10 (ts ! lo))
          \<and> (hi = length ts \<or> take 10 (ts ! hi) \<noteq> take 10 (ts ! lo)))
    \<and> (\<forall>xs ys d1 d2.
          ts = xs @ ys \<and> xs \<noteq> [] \<and> ys \<noteq> [] \<and> (\<forall>t\<in>set xs. take 10 t = d1)
          \<and> (\<forall>t\<in>set ys. take 10 t = d2) \<and> d1 \<noteq> d2
          \<longrightarrow> runs = [(0, length xs), (length xs, length ts)])"
proof -
  from forEachUniqueRange_runs[OF sameDay_pure, of ts]
  obtain runs where tiles: "tiles 0 runs (length ts)"
    and runs: "\<forall>r\<in>set runs. run_of (\<lambda>a b. take 10 a = take 10 b) ts r"
    and call: "\<forall>func :: nat \<Rightarrow> nat \<Rightarrow> string list \<Rightarrow> error + 'a feature.
        forEachUniqueRange ts sameDay func = Some (collect func ts runs)"
    by blast
  have result: "dateSplit feature =
        Some (Inr (map (\<lambda>(lo, hi).
                \<lparr>ftype = ''Feature'', bbox = None,
                 properties = Some (p\<lparr>coordTimes := Some (Times (js_slice lo hi ts)),
                                      time := Some (ts ! lo),
                                      date := Some (take 10 (ts ! lo))\<rparr>),
                 geometry = LineString (js_slice lo hi coordinates)\<rparr>) runs))"
    using dateSplit_aligned[OF assms] call collect_dateSplit_run[OF tiles, of p coordinates]
    by simp
  have same: "\<forall>(lo, hi)\<in>set runs.
          (\<forall>i\<in>{lo..<hi}. take 10 (ts ! i) = take 10 (ts ! lo))
          \<and> (hi = length ts \<or> take 10 (ts ! hi) \<noteq> take 10 (ts ! lo))"
  proof (clarify, intro conjI ballI)
    fix lo hi i assume r: "(lo, hi) \<in> set runs" and i: "i \<in> {lo..<hi}"
    from runs r have "\<forall>i\<in>{Suc lo..<hi}. take 10 (ts ! lo) = take 10 (ts ! i)"
      by (auto simp: run_of_def)
    then have "i \<in> {Suc lo..<hi} \<Longrightarrow> take 10 (ts ! i) = take 10 (ts ! lo)"
      by simp
    with i show "take 10 (ts ! i) = take 10 (ts ! lo)"
      by (cases "i = lo") auto
  next
    fix lo hi assume r: "(lo, hi) \<in> set runs"
    with runs show "hi = length ts \<or> take 10 (ts ! hi) \<noteq> take 10 (ts ! lo)"
      by (auto simp: run_of_def)
  qed
  have two: "runs = [(0, length xs), (length xs, length ts)]"
    if "ts = xs @ ys" "xs \<noteq> []" "ys \<noteq> []" "\<forall>t\<in>set xs. take 10 t = d1"
      "\<forall>t\<in>set ys. take 10 t = d2" "d1 \<noteq> d2" for xs ys d1 d2
    using two_day_runs[of runs xs ys d1 d2] tiles runs that by simp
  from result tiles tiles_whole[OF tiles] tiles_whole_same_length[OF tiles assms(5)[symmetric]]
    same two
  show ?thesis by blast
qed

theorem dateSplit_day_runs_witness:
  "dateSplit overnight =
     Some (Inr [\<lparr>ftype = ''Feature'', bbox = None,
                 properties = Some
                   \<lparr>time = Some ''2017-06-10T23:50:00Z'',
                    coordTimes = Some (Times [''2017-06-10T23:50:00Z'', ''2017-06-10T23:55:00Z'']),
                    gpxFileName = Some ''overnight.gpx'', date = Some ''2017-06-10'',
                    distance_prop = None, rest = []\<rparr>,
                 geometry = LineString [[0, 0], [1, 0]]\<rparr>,
                \<lparr>ftype = ''Feature'', bbox = None,
                 properties = Some
                   \<lparr>time = Some ''2017-06-11T00:05:00Z'',
                    coordTimes = Some (Times [''2017-06-11T00:05:00Z'', ''2017-06-11T00:10:00Z'']),
                    gpxFileName = Some ''overnight.gpx'', date = Some ''2017-06-11'',
                    distance_prop = None, rest = []\<rparr>,
                 geometry = LineString [[2, 0], [3, 0]]\<rparr>])"
proof -
  let ?ts = "[''2017-06-10T23:50:00Z'', ''2017-06-10T23:55:00Z'',
              ''2017-06-11T00:05:00Z'', ''2017-06-11T00:10:00Z'']"
  let ?p = "\<lparr>time = Some ''2017-06-10T23:50:00Z'', coordTimes = Some (Times ?ts),
             gpxFileName = Some ''overnight.gpx'', date = None,
             distance_prop = None, rest = []\<rparr> :: int properties"
  have "ftype overnight = ''Feature''"
    and "geometry overnight = LineString [[0, 0], [1, 0], [2, 0], [3, 0]]"
    and "properties overnight = Some ?p"
    and "coordTimes ?p = Some (Times ?ts)"
    and "length ?ts = length [[0, 0], [1, 0], [2, 0], [3, 0 :: int]]"
    by (simp_all add: overnight_def)
  from dateSplit_day_runs[OF this]
  obtain runs where res: "dateSplit overnight =
        Some (Inr (map (\<lambda>(lo, hi).
                \<lparr>ftype = ''Feature'', bbox = None,
                 properties = Some (?p\<lparr>coordTimes := Some (Times (js_slice lo hi ?ts)),
                                      time := Some (?ts ! lo),
                                      date := Some (take 10 (?ts ! lo))\<rparr>),
                 geometry = LineString (js_slice lo hi [[0, 0], [1, 0], [2, 0], [3, 0]])\<rparr>) runs))"
    and two: "\<forall>xs ys d1 d2.
          ?ts = xs @ ys \<and> xs \<noteq> [] \<and> ys \<noteq> [] \<and> (\<forall>t\<in>set xs. take 10 t = d1)
          \<and> (\<forall>t\<in>set ys. take 10 t = d2) \<and> d1 \<noteq> d2
          \<longrightarrow> runs = [(0, length xs), (length xs, length ?ts)]"
    by blast
  from two[rule_format, of "[''2017-06-10T23:50:00Z'', ''2017-06-10T23:55:00Z'']"
      "[''2017-06-11T00:05:00Z'', ''2017-06-11T00:10:00Z'']" "''2017-06-10''" "''2017-06-11''"]
  have "runs = [(0, 2), (2, 4)]" by simp
  with res show ?thesis by (simp add: js_slice_def)
qed

section \<open>Claims about \<open>mergeLines\<close>\<close>

text \<open>
  C5. For a run of two or more lines of one day, \<open>mergeLines\<close> is to return one feature, a
  multi-line of the lines in the order of the run (its comment: merge a range of lines
  into a MultiLine), with the nested \<open>coordTimes\<close> when the first line has \<open>coordTimes\<close>. It
  does not on a run whose first line has \<open>coordTimes\<close> and whose second has none: the length
  of the missing \<open>coordTimes\<close> is read, which is a \<open>TypeError\<close>. The pipeline comes to such a
  run for a track followed, on the same day, by a route that has a \<open>time\<close> and no
  timestamps.
\<close>

theorem mergeLines_mixed_run_failing_input:
  "mergeLines 0 2 [morning, untimed] = Inl TypeError
   \<and> geojson grid_leaflet [morning, untimed] = Some (Inl TypeError)"
  by code_simp

text \<open>
  On the other runs of two or more lines \<open>mergeLines\<close> returns a multi-line with the
  coordinates of the lines in the order of the run and the \<open>date\<close> of the first line. When
  the first line has no \<open>coordTimes\<close>, these are all its properties. When the first line has
  \<open>coordTimes\<close> and every line of the run has one timestamp for each coordinate,
  \<open>coordTimes\<close> is the list of their timestamp lists in the order of the run and \<open>time\<close> is
  the first timestamp of the first line. When the first line has \<open>coordTimes\<close>, every line
  has some, and those of one line are not as many as its coordinates, the assertion fails.
\<close>

theorem mergeLines_run:
  fixes features :: "'n feature list" and lo hi :: nat
  defines "slice \<equiv> js_slice lo hi features"
  assumes run: "lo + 2 \<le> hi" "hi \<le> length features"
    and lines: "\<forall>walk\<in>set slice. \<exists>cs. geometry walk = LineString cs"
    and p0: "properties (features ! lo) = Some p0"
  shows "(coordTimes p0 = None \<longrightarrow>
            mergeLines lo hi features =
              Inr (Some \<lparr>ftype = ''Feature'', bbox = None,
                         properties = Some (empty_properties\<lparr>date := date p0\<rparr>),
                         geometry = MultiLineString (map line_of slice)\<rparr>))
       \<and> (coordTimes p0 \<noteq> None
            \<and> (\<forall>walk\<in>set slice. \<exists>p ts. properties walk = Some p \<and> coordTimes p = Some (Times ts)
                  \<and> length ts = length (line_of walk)) \<longrightarrow>
            mergeLines lo hi features =
              Inr (Some \<lparr>ftype = ''Feature'', bbox = None,
                         properties = Some (empty_properties
                           \<lparr>date := date p0,
                            coordTimes := Some (MultiTimes (map times_of slice)),
                            time := first (times_of (features ! lo))\<rparr>),
                         geometry = MultiLineString (map line_of slice)\<rparr>))
       \<and> (coordTimes p0 \<noteq> None
            \<and> (\<forall>walk\<in>set slice. \<exists>p ct. properties walk = Some p \<and> coordTimes p = Some ct)
            \<and> (\<exists>walk\<in>set slice. \<exists>p ct. properties walk = Some p \<and> coordTimes p = Some ct
                  \<and> times_length ct \<noteq> length (line_of walk)) \<longrightarrow>
            mergeLines lo hi features = Inl AssertionError)
       \<and> (coordTimes p0 \<noteq> None
            \<and> (\<exists>walk\<in>set slice. \<exists>p. properties walk = Some p \<and> coordTimes p = None) \<longrightarrow>
            mergeLines lo hi features = Inl TypeError
            \<or> mergeLines lo hi features = Inl AssertionError)"
proof -
  have far: "\<not> int hi - int lo \<le> 1" using run by simp
  have lo: "lo < hi" "lo < length features" using run by auto
  have head: "first slice = Some (features ! lo)"
    unfolding slice_def using lo by (rule js_slice_nth)
  have coords: "mapE line_coordinates slice = Inr (map line_of slice)"
    using lines by (intro mapE_Inr) (auto simp: line_coordinates_def line_of_def)
  have clen: "coordinates_length (geometry walk) = length (line_of walk)" if "walk \<in> set slice" for walk
    using lines that by (auto simp: line_of_def)
  have pre: "mergeLines lo hi features =
      (case coordTimes p0 of
         None \<Rightarrow>
           Inr (Some \<lparr>ftype = ''Feature'', bbox = None,
                      properties = Some (empty_properties\<lparr>date := date p0\<rparr>),
                      geometry = MultiLineString (map line_of slice)\<rparr>)
       | Some ct0 \<Rightarrow>
           (case mapE walk_times slice of
              Inl e \<Rightarrow> Inl e
            | Inr cts \<Rightarrow>
                (case mapE flat_times cts of
                   Inl e \<Rightarrow> Inl e
                 | Inr tss \<Rightarrow>
                     Inr (Some \<lparr>ftype = ''Feature'', bbox = None,
                                properties = Some (empty_properties
                                  \<lparr>date := date p0,
                                   coordTimes := Some (MultiTimes tss),
                                   time := (case first tss of
                                              None \<Rightarrow> None
                                            | Some ts0 \<Rightarrow> first ts0)\<rparr>),
                                geometry = MultiLineString (map line_of slice)\<rparr>))))"
    using far head coords p0 by (simp add: mergeLines_def slice_def[symmetric])
  have A: ?thesis if "coordTimes p0 = None"
    using that pre by simp
  have B: "mergeLines lo hi features =
              Inr (Some \<lparr>ftype = ''Feature'', bbox = None,
                         properties = Some (empty_properties
                           \<lparr>date := date p0,
                            coordTimes := Some (MultiTimes (map times_of slice)),
                            time := first (times_of (features ! lo))\<rparr>),
                         geometry = MultiLineString (map line_of slice)\<rparr>)"
    if some: "coordTimes p0 \<noteq> None"
      and al: "\<forall>walk\<in>set slice. \<exists>p ts. properties walk = Some p \<and> coordTimes p = Some (Times ts)
                  \<and> length ts = length (line_of walk)"
  proof -
    have wt: "mapE walk_times slice = Inr (map (\<lambda>walk. Times (times_of walk)) slice)"
    proof (rule mapE_Inr, rule ballI)
      fix walk assume w: "walk \<in> set slice"
      with al obtain p ts where "properties walk = Some p" "coordTimes p = Some (Times ts)"
        "length ts = length (line_of walk)" by blast
      then show "walk_times walk = Inr (Times (times_of walk))"
        using clen[OF w] by (simp add: walk_times_def times_of_def)
    qed
    have ft: "mapE flat_times (map (\<lambda>walk. Times (times_of walk)) slice) = Inr (map times_of slice)"
      by (induction slice) (auto simp: flat_times_def)
    have fst: "first (map times_of slice) = Some (times_of (features ! lo))"
      using head by (cases slice) (auto simp: first_def)
    from some obtain ct0 where "coordTimes p0 = Some ct0" by auto
    then show ?thesis using pre wt ft fst by simp
  qed
  have C: "mergeLines lo hi features = Inl AssertionError"
    if some: "coordTimes p0 \<noteq> None"
      and al: "\<forall>walk\<in>set slice. \<exists>p ct. properties walk = Some p \<and> coordTimes p = Some ct"
      and ex: "\<exists>walk\<in>set slice. \<exists>p ct. properties walk = Some p \<and> coordTimes p = Some ct
                  \<and> times_length ct \<noteq> length (line_of walk)"
  proof -
    have "mapE walk_times slice = Inl AssertionError"
    proof (rule mapE_Inl)
      show "\<forall>walk\<in>set slice. walk_times walk = Inl AssertionError \<or> (\<exists>y. walk_times walk = Inr y)"
      proof
        fix walk assume "walk \<in> set slice"
        with al obtain p ct where "properties walk = Some p" "coordTimes p = Some ct" by blast
        then show "walk_times walk = Inl AssertionError \<or> (\<exists>y. walk_times walk = Inr y)"
          by (simp add: walk_times_def)
      qed
      show "\<exists>walk\<in>set slice. walk_times walk = Inl AssertionError"
      proof -
        from ex obtain walk p ct where w: "walk \<in> set slice" "properties walk = Some p"
          "coordTimes p = Some ct" "times_length ct \<noteq> length (line_of walk)" by blast
        then have "walk_times walk = Inl AssertionError"
          using clen[OF w(1)] by (simp add: walk_times_def)
        with w(1) show ?thesis by blast
      qed
    qed
    moreover from some obtain ct0 where "coordTimes p0 = Some ct0" by auto
    ultimately show ?thesis using pre by simp
  qed
  have D: "mergeLines lo hi features = Inl TypeError
      \<or> mergeLines lo hi features = Inl AssertionError"
    if some: "coordTimes p0 \<noteq> None"
      and ex: "\<exists>walk\<in>set slice. \<exists>p. properties walk = Some p \<and> coordTimes p = None"
  proof -
    from ex obtain walk p where w: "walk \<in> set slice" "properties walk = Some p"
      "coordTimes p = None" by blast
    then have "walk_times walk = Inl TypeError" by (simp add: walk_times_def)
    with w(1) have "\<exists>walk\<in>set slice. \<exists>e. walk_times walk = Inl e" by blast
    from mapE_fails[OF this] obtain e where e: "mapE walk_times slice = Inl e"
      "\<exists>walk\<in>set slice. walk_times walk = Inl e"
      by blast
    then have "e = TypeError \<or> e = AssertionError" by (auto dest: walk_times_error)
    moreover from some obtain ct0 where "coordTimes p0 = Some ct0" by auto
    ultimately show ?thesis using pre e(1) by auto
  qed
  from A B C D show ?thesis by blast
qed

theorem mergeLines_run_witness:
  "mergeLines 0 2 [morning, afternoon] = Inr (Some merged_day)"
proof -
  let ?p0 = "\<lparr>time = Some ''2017-06-10T08:00:00Z'',
         coordTimes = Some (Times [''2017-06-10T08:00:00Z'', ''2017-06-10T08:05:00Z'']),
         gpxFileName = Some ''morning.gpx'', date = Some ''2017-06-10'',
         distance_prop = None, rest = [(''name'', ''Morning'')]\<rparr> :: int properties"
  have slice: "js_slice 0 2 [morning, afternoon] = [morning, afternoon]"
    by (simp add: js_slice_def)
  have run: "0 + 2 \<le> (2 :: nat)" "2 \<le> length [morning, afternoon]" by simp_all
  have lines: "\<forall>walk\<in>set (js_slice 0 2 [morning, afternoon]). \<exists>cs. geometry walk = LineString cs"
    unfolding slice by (simp add: morning_def afternoon_def)
  have p0: "properties ([morning, afternoon] ! 0) = Some ?p0" by (simp add: morning_def)
  have al: "coordTimes ?p0 \<noteq> None
      \<and> (\<forall>walk\<in>set (js_slice 0 2 [morning, afternoon]).
            \<exists>p ts. properties walk = Some p \<and> coordTimes p = Some (Times ts)
              \<and> length ts = length (line_of walk))"
    unfolding slice by (simp add: morning_def afternoon_def line_of_def)
  from mergeLines_run[OF run lines p0, THEN conjunct2, THEN conjunct1, rule_format, OF al]
  show ?thesis
    unfolding slice
    by (simp add: merged_day_def morning_def afternoon_def line_of_def times_of_def
        first_def empty_properties_def)
qed

text \<open>
  C7. For a run of exactly one feature, \<open>mergeLines\<close> returns that feature: the same
  value, so the same geometry and the same properties.
\<close>

theorem mergeLines_single:
  assumes "lo < length features"
  shows "mergeLines lo (lo + 1) features = Inr (Some (features ! lo))"
  using assms by (simp add: mergeLines_def array_at_def)

theorem mergeLines_single_witness:
  "mergeLines 0 1 [morning] = Inr (Some morning)"
  using mergeLines_single[of 0 "[morning]"] by simp

section \<open>Claims about \<open>distance\<close>\<close>




section \<open>Claims about \<open>addBbox\<close>\<close>

text \<open>
  C8. On a line or multi-line, \<open>addBbox\<close> first has Leaflet convert the coordinates and
  compute the bounds, and an exception of Leaflet ends \<open>addBbox\<close> with that exception. Behind
  that, \<open>addBbox\<close> looks at the number of components of one position only, the first
  position (of the first part). When it returns a feature, that position has 2 or 3
  components. When Leaflet has returned the bounds and that position has neither 2 nor 3
  components, the assertion fails; when it has 2 or 3 and the feature has properties,
  \<open>addBbox\<close> returns a feature, whatever the other positions are.
\<close>

theorem addBbox_checks_first_position:
  assumes "ftype feature = ''Feature''"
    and "js_endsWith (gtype (geometry feature)) ''LineString''"
  shows "(\<forall>out. addBbox L feature = Inr out \<longrightarrow>
            (\<exists>c. first_position (geometry feature) = Inr c \<and> (length c = 2 \<or> length c = 3)))
       \<and> (\<forall>latLngs bounds c.
            coordsToLatLngs L (geometry feature)
              (if ''LineString'' = gtype (geometry feature) then 0 else 1) = Inr latLngs
            \<and> polyline_getBounds L latLngs = Inr bounds
            \<and> first_position (geometry feature) = Inr c \<longrightarrow>
            (length c \<noteq> 2 \<and> length c \<noteq> 3 \<longrightarrow> addBbox L feature = Inl AssertionError)
            \<and> ((length c = 2 \<or> length c = 3) \<and> properties feature \<noteq> None \<longrightarrow>
                 (\<exists>out. addBbox L feature = Inr out)))
       \<and> (\<forall>e. coordsToLatLngs L (geometry feature)
              (if ''LineString'' = gtype (geometry feature) then 0 else 1) = Inl e \<longrightarrow>
            addBbox L feature = Inl e)
       \<and> (\<forall>latLngs e.
            coordsToLatLngs L (geometry feature)
              (if ''LineString'' = gtype (geometry feature) then 0 else 1) = Inr latLngs
            \<and> polyline_getBounds L latLngs = Inl e \<longrightarrow>
            addBbox L feature = Inl e)"
proof (intro conjI allI impI)
  fix out assume out: "addBbox L feature = Inr out"
  from addBbox_Inr[OF assms out] obtain latLngs bounds c where
    l: "coordsToLatLngs L (geometry feature)
           (if ''LineString'' = gtype (geometry feature) then 0 else 1) = Inr latLngs"
    "polyline_getBounds L latLngs = Inr bounds" "first_position (geometry feature) = Inr c"
    by blast
  from out addBbox_line[OF assms l] have "length c = 2 \<or> length c = 3"
    by (auto split: if_splits)
  with l(3) show "\<exists>c. first_position (geometry feature) = Inr c \<and> (length c = 2 \<or> length c = 3)"
    by blast
next
  fix latLngs bounds c
  assume l: "coordsToLatLngs L (geometry feature)
              (if ''LineString'' = gtype (geometry feature) then 0 else 1) = Inr latLngs
            \<and> polyline_getBounds L latLngs = Inr bounds
            \<and> first_position (geometry feature) = Inr c"
  then have eq: "addBbox L feature = (if length c = 3 then
        (case properties feature of
           None \<Rightarrow> Inl TypeError
         | Some p \<Rightarrow>
             Inr \<lparr>ftype = ''Feature'',
                  bbox = Some [Some (lng (getSouthWest bounds)), Some (lat (getSouthWest bounds)),
                               alt (getSouthWest bounds),
                               Some (lng (getNorthEast bounds)), Some (lat (getNorthEast bounds)),
                               alt (getNorthEast bounds)],
                  properties = Some (empty_properties
                    \<lparr>date := date p,
                     distance_prop := Some (Math_round L (distance L latLngs))\<rparr>),
                  geometry = geometry feature\<rparr>)
      else if length c \<noteq> 2 then Inl AssertionError
      else
        (case properties feature of
           None \<Rightarrow> Inl TypeError
         | Some p \<Rightarrow>
             Inr \<lparr>ftype = ''Feature'',
                  bbox = Some [Some (lng (getSouthWest bounds)), Some (lat (getSouthWest bounds)),
                               Some (lng (getNorthEast bounds)), Some (lat (getNorthEast bounds))],
                  properties = Some (empty_properties
                    \<lparr>date := date p,
                     distance_prop := Some (Math_round L (distance L latLngs))\<rparr>),
                  geometry = geometry feature\<rparr>))"
    using addBbox_line[OF assms] by blast
  {
    assume "length c \<noteq> 2 \<and> length c \<noteq> 3"
    with eq show "addBbox L feature = Inl AssertionError" by simp
  }
  {
    assume "(length c = 2 \<or> length c = 3) \<and> properties feature \<noteq> None"
    with eq show "\<exists>out. addBbox L feature = Inr out" by auto
  }
next
  fix e
  assume "coordsToLatLngs L (geometry feature)
              (if ''LineString'' = gtype (geometry feature) then 0 else 1) = Inl e"
  then show "addBbox L feature = Inl e"
    using assms by (simp add: addBbox_def Let_def)
next
  fix latLngs e
  assume "coordsToLatLngs L (geometry feature)
              (if ''LineString'' = gtype (geometry feature) then 0 else 1) = Inr latLngs
            \<and> polyline_getBounds L latLngs = Inl e"
  then show "addBbox L feature = Inl e"
    using assms by (simp add: addBbox_def Let_def)
qed

theorem addBbox_checks_first_position_witness:
  "(\<exists>c. first_position (geometry mixed) = Inr c \<and> (length c = 2 \<or> length c = 3))
   \<and> addBbox grid_leaflet (mixed\<lparr>geometry := LineString [[0, 0, 0, 0], [1, 1]]\<rparr>)
       = Inl AssertionError
   \<and> addBbox grid_leaflet (mixed\<lparr>geometry := LineString [[0], [1, 1]]\<rparr>) = Inl LeafletError"
proof -
  have m: "ftype mixed = ''Feature''" "js_endsWith (gtype (geometry mixed)) ''LineString''"
    by (simp_all add: mixed_def js_endsWith_def)
  have "addBbox grid_leaflet mixed =
       Inr \<lparr>ftype = ''Feature'', bbox = Some [Some 0, Some 0, Some 1, Some 1],
            properties = Some
              \<lparr>time = None, coordTimes = None, gpxFileName = None, date = Some ''2017-06-14'',
               distance_prop = Some 2, rest = []\<rparr>,
            geometry = LineString [[0, 0], [1, 1, 5]]\<rparr>"
    by code_simp
  then have out: "\<exists>out. addBbox grid_leaflet mixed = Inr out" by blast
  let ?f = "mixed\<lparr>geometry := LineString [[0, 0, 0, 0], [1, 1]]\<rparr>"
  have f: "ftype ?f = ''Feature''" "js_endsWith (gtype (geometry ?f)) ''LineString''"
    by (simp_all add: mixed_def js_endsWith_def)
  have l: "coordsToLatLngs grid_leaflet (geometry ?f)
              (if ''LineString'' = gtype (geometry ?f) then 0 else 1)
             = Inr (LatLngs [\<lparr>lat = 0, lng = 0, alt = Some 0\<rparr>, \<lparr>lat = 1, lng = 1, alt = None\<rparr>])
           \<and> polyline_getBounds grid_leaflet
                (LatLngs [\<lparr>lat = 0, lng = 0, alt = Some 0\<rparr>, \<lparr>lat = 1, lng = 1, alt = None\<rparr>])
             = Inr \<lparr>getSouthWest = \<lparr>lat = 0, lng = 0, alt = None\<rparr>,
                    getNorthEast = \<lparr>lat = 1, lng = 1, alt = None\<rparr>\<rparr>
           \<and> first_position (geometry ?f) = Inr [0, 0, 0, 0]"
    by code_simp
  let ?g = "mixed\<lparr>geometry := LineString [[0], [1, 1]]\<rparr>"
  have g: "ftype ?g = ''Feature''" "js_endsWith (gtype (geometry ?g)) ''LineString''"
    by (simp_all add: mixed_def js_endsWith_def)
  have refused: "coordsToLatLngs grid_leaflet (geometry ?g)
              (if ''LineString'' = gtype (geometry ?g) then 0 else 1) = Inl LeafletError"
    by code_simp
  from addBbox_checks_first_position[OF m, of grid_leaflet, THEN conjunct1] out
  have "\<exists>c. first_position (geometry mixed) = Inr c \<and> (length c = 2 \<or> length c = 3)"
    by blast
  moreover
  from addBbox_checks_first_position[OF f, of grid_leaflet, THEN conjunct2, THEN conjunct1,
      rule_format, OF l, THEN conjunct1]
  have "addBbox grid_leaflet ?f = Inl AssertionError" by simp
  moreover
  from addBbox_checks_first_position[OF g, of grid_leaflet, THEN conjunct2, THEN conjunct2,
      THEN conjunct1, rule_format, OF refused]
  have "addBbox grid_leaflet ?g = Inl LeafletError" .
  ultimately show ?thesis by simp
qed

text \<open>
  A line whose first position has 2 components and whose second has 3: \<open>addBbox\<close> returns
  a feature for it.
\<close>

theorem addBbox_mixed_dimensions_counterexample:
  "map length (line_of mixed) = [2, 3]
   \<and> addBbox grid_leaflet mixed =
       Inr \<lparr>ftype = ''Feature'', bbox = Some [Some 0, Some 0, Some 1, Some 1],
            properties = Some
              \<lparr>time = None, coordTimes = None, gpxFileName = None, date = Some ''2017-06-14'',
               distance_prop = Some 2, rest = []\<rparr>,
            geometry = LineString [[0, 0], [1, 1, 5]]\<rparr>"
  by code_simp

text \<open>
  C9. When \<open>mergeLines\<close> has merged two or more lines and \<open>addBbox\<close> returns a feature for
  the result, that feature has the geometry of the merged feature, a bounding box of 4 or
  6 entries, and exactly two properties: the \<open>date\<close> of the merged feature and the rounded
  \<open>distance\<close>. The \<open>coordTimes\<close> and \<open>time\<close> of the merged feature are not carried over.
\<close>

theorem enriched_properties:
  assumes "mergeLines lo hi features = Inr (Some merged)"
    and "lo + 2 \<le> hi"
    and "addBbox L merged = Inr out"
  shows "geometry out = geometry merged
    \<and> (\<exists>box. bbox out = Some box \<and> (length box = 4 \<or> length box = 6))
    \<and> (\<exists>p latLngs. properties merged = Some p
          \<and> coordsToLatLngs L (geometry merged) 1 = Inr latLngs
          \<and> properties out =
              Some \<lparr>time = None, coordTimes = None, gpxFileName = None, date = date p,
                    distance_prop = Some (Math_round L (distance L latLngs)), rest = []\<rparr>)"
proof -
  from mergeLines_merged[OF assms(1,2)] obtain parts p where
    m: "ftype merged = ''Feature''" "geometry merged = MultiLineString parts"
      "properties merged = Some p"
    by blast
  then have line: "js_endsWith (gtype (geometry merged)) ''LineString''"
    by (simp add: js_endsWith_def)
  from addBbox_Inr[OF m(1) line assms(3)] obtain latLngs bounds c where
    l: "coordsToLatLngs L (geometry merged)
           (if ''LineString'' = gtype (geometry merged) then 0 else 1) = Inr latLngs"
      "polyline_getBounds L latLngs = Inr bounds" "first_position (geometry merged) = Inr c"
    by blast
  from assms(3) addBbox_line[OF m(1) line l] m(3)
  have "out = \<lparr>ftype = ''Feature'',
                  bbox = Some [Some (lng (getSouthWest bounds)), Some (lat (getSouthWest bounds)),
                               alt (getSouthWest bounds),
                               Some (lng (getNorthEast bounds)), Some (lat (getNorthEast bounds)),
                               alt (getNorthEast bounds)],
                  properties = Some (empty_properties
                    \<lparr>date := date p,
                     distance_prop := Some (Math_round L (distance L latLngs))\<rparr>),
                  geometry = geometry merged\<rparr>
      \<or> out = \<lparr>ftype = ''Feature'',
                  bbox = Some [Some (lng (getSouthWest bounds)), Some (lat (getSouthWest bounds)),
                               Some (lng (getNorthEast bounds)), Some (lat (getNorthEast bounds))],
                  properties = Some (empty_properties
                    \<lparr>date := date p,
                     distance_prop := Some (Math_round L (distance L latLngs))\<rparr>),
                  geometry = geometry merged\<rparr>"
    by (auto split: if_splits)
  moreover have "coordsToLatLngs L (geometry merged) 1 = Inr latLngs"
    using l(1) m(2) by simp
  ultimately show ?thesis using m(3)
    by (auto simp: empty_properties_def)
qed

theorem enriched_properties_witness:
  "geometry enriched_day = geometry merged_day
   \<and> (\<exists>box. bbox enriched_day = Some box \<and> (length box = 4 \<or> length box = 6))
   \<and> (\<exists>p latLngs. properties merged_day = Some p
         \<and> coordsToLatLngs grid_leaflet (geometry merged_day) 1 = Inr latLngs
         \<and> properties enriched_day =
             Some \<lparr>time = None, coordTimes = None, gpxFileName = None, date = date p,
                   distance_prop = Some (Math_round grid_leaflet (distance grid_leaflet latLngs)),
                   rest = []\<rparr>)"
proof -
  have "mergeLines 0 2 [morning, afternoon] = Inr (Some merged_day)" by code_simp
  moreover have "0 + 2 \<le> (2 :: nat)" by simp
  moreover have "addBbox grid_leaflet merged_day = Inr enriched_day" by code_simp
  ultimately show ?thesis by (rule enriched_properties)
qed

text \<open>
  The two walks of one day: the merged feature has the nested \<open>coordTimes\<close> and a \<open>time\<close>,
  the feature that \<open>addBbox\<close> returns for it has neither.
\<close>

theorem enriched_keeps_coordTimes_counterexample:
  "mergeLines 0 2 [morning, afternoon] = Inr (Some merged_day)
   \<and> addBbox grid_leaflet merged_day = Inr enriched_day
   \<and> properties enriched_day =
       Some \<lparr>time = None, coordTimes = None, gpxFileName = None, date = Some ''2017-06-10'',
             distance_prop = Some 6, rest = []\<rparr>"
  by code_simp

end
